theory Spec2Isabelle
  imports Complex_Main "HOL-Library.Multiset" "HOL-Library.Char_ord" "HOL-Library.List_Lexorder" "HOL-Library.Product_Lexorder"
begin

section \<open>Python values used by export-gerencial.py\<close>

text \<open>
  A Python \<open>str\<close> is modelled as the list of its code points, restricted to code points
  below 256; \<open>string\<close> comparison (\<open>HOL-Library.List_Lexorder\<close> over
  \<open>HOL-Library.Char_ord\<close>) is then Python's comparison of \<open>str\<close> values. Every scalar
  field the monitoring API returns is a JSON string, so a record field is a
  \<open>string option\<close> (\<open>None\<close>: the key is absent) and a nested dictionary of strings is an
  association list with distinct keys.
\<close>

datatype error = ValueError | KeyError | OSError | IllegalCharacterError

type_synonym pydict = "(string \<times> string) list"

definition digit_char :: "nat \<Rightarrow> char" where
  "digit_char d = ''0123456789'' ! d"

fun nat_digits :: "nat \<Rightarrow> string" where
  "nat_digits n = (if n < 10 then [digit_char n] else nat_digits (n div 10) @ [digit_char (n mod 10)])"

declare nat_digits.simps [simp del]

definition str_int :: "int \<Rightarrow> string" where
  \<comment> \<open>\<open>str(i)\<close>, which is what an f-string field \<open>{i}\<close> renders for an int\<close>
  "str_int i = (if i < 0 then ''-'' @ nat_digits (nat (- i)) else nat_digits (nat i))"

definition int_space :: "char \<Rightarrow> bool" where
  \<comment> \<open>the characters \<open>int()\<close> skips at both ends of its argument\<close>
  "int_space c = (of_char c \<in> {9, 10, 11, 12, 13, 32, 133, 160 :: nat})"

definition is_digit :: "char \<Rightarrow> bool" where
  "is_digit c = (48 \<le> (of_char c :: nat) \<and> (of_char c :: nat) \<le> 57)"

definition digit_val :: "char \<Rightarrow> int" where
  "digit_val c = int (of_char c) - 48"

fun int_body :: "string \<Rightarrow> bool" where
  \<comment> \<open>digits, single underscores allowed between two digits\<close>
  "int_body [] = False"
| "int_body [c] = is_digit c"
| "int_body (c # d # r) =
     (is_digit c \<and> (if d = CHR ''_'' then int_body r else int_body (d # r)))"

definition digits_value :: "string \<Rightarrow> int" where
  "digits_value ds = foldl (\<lambda>acc c. 10 * acc + digit_val c) 0 ds"

definition int_max_str_digits :: nat where
  \<comment> \<open>CPython's default limit on the digits of a decimal literal\<close>
  "int_max_str_digits = 4300"

definition py_int :: "string \<Rightarrow> error + int" where
  \<comment> \<open>\<open>int(s)\<close> for a \<open>str\<close>: \<open>ValueError\<close> unless \<open>s\<close> is an optionally signed decimal literal\<close>
  "py_int s =
     (let t = rev (dropWhile int_space (rev (dropWhile int_space s)));
          neg = (case t of [] \<Rightarrow> False | c # _ \<Rightarrow> c = CHR ''-'');
          u = (case t of [] \<Rightarrow> [] | c # r \<Rightarrow> if c = CHR ''-'' \<or> c = CHR ''+'' then r else t);
          ds = filter is_digit u
      in if int_body u \<and> length ds \<le> int_max_str_digits
         then Inr (if neg then - digits_value ds else digits_value ds)
         else Inl ValueError)"

definition lower_char :: "char \<Rightarrow> char" where
  "lower_char c =
     (let n = of_char c :: nat
      in if (65 \<le> n \<and> n \<le> 90) \<or> (192 \<le> n \<and> n \<le> 222 \<and> n \<noteq> 215) then char_of (n + 32) else c)"

definition lower :: "string \<Rightarrow> string" where
  \<comment> \<open>\<open>str.lower()\<close> on code points below 256\<close>
  "lower s = map lower_char s"

definition get_or :: "'a option \<Rightarrow> 'a \<Rightarrow> 'a" where
  \<comment> \<open>\<open>d.get(key, default)\<close>, the looked-up field given as an option\<close>
  "get_or v d = (case v of None \<Rightarrow> d | Some x \<Rightarrow> x)"

fun map_err :: "('a \<Rightarrow> error + 'b) \<Rightarrow> 'a list \<Rightarrow> error + 'b list" where
  \<comment> \<open>a loop or comprehension whose body may raise: the first exception ends it\<close>
  "map_err f [] = Inr []"
| "map_err f (x # xs) =
     (case f x of Inl e \<Rightarrow> Inl e
      | Inr y \<Rightarrow> (case map_err f xs of Inl e \<Rightarrow> Inl e | Inr ys \<Rightarrow> Inr (y # ys)))"

section \<open>Reference tables\<close>

definition ITEM_TYPES :: "(string \<times> string) list" where
  "ITEM_TYPES =
     [(''0'', ''Zabbix agent''), (''2'', ''Zabbix trapper''), (''3'', ''Simple check''),
      (''5'', ''Zabbix internal''), (''7'', ''Zabbix agent (active)''), (''9'', ''Web item''),
      (''10'', ''External check''), (''11'', ''Database monitor''), (''12'', ''IPMI agent''),
      (''13'', ''SSH agent''), (''14'', ''Telnet agent''), (''15'', ''Calculated''),
      (''16'', ''JMX agent''), (''17'', ''SNMP trap''), (''18'', ''Dependent item''),
      (''19'', ''HTTP agent''), (''20'', ''SNMP agent''), (''21'', ''Script'')]"

definition VALUE_TYPES :: "(string \<times> string) list" where
  "VALUE_TYPES =
     [(''0'', ''Num'' @ [CHR 0xE9] @ ''rico (float)''), (''1'', ''Caractere''), (''2'', ''Log''),
      (''3'', ''Num'' @ [CHR 0xE9] @ ''rico (inteiro)''), (''4'', ''Texto'')]"

definition TRIGGER_PRIORITIES :: "(string \<times> string \<times> string) list" where
  "TRIGGER_PRIORITIES =
     [(''0'', ''N'' @ [CHR 0xE3] @ ''o classificada'', ''#97AAB3''),
      (''1'', ''Informa'' @ [CHR 0xE7, CHR 0xE3] @ ''o'', ''#7499FF''),
      (''2'', ''Aviso'', ''#FFC859''),
      (''3'', ''M'' @ [CHR 0xE9] @ ''dia'', ''#FFA059''),
      (''4'', ''Alta'', ''#E97659''),
      (''5'', ''Desastre'', ''#E45959'')]"

definition STATUS_MAP :: "(string \<times> string \<times> string) list" where
  "STATUS_MAP = [(''0'', ''Ativo'', ''#4CAF50''), (''1'', ''Desabilitado'', ''#F44336'')]"

definition Desconhecido :: "string \<times> string" where
  \<comment> \<open>the fallback \<open>("Desconhecido", "#888")\<close> of the label/colour tables\<close>
  "Desconhecido = (''Desconhecido'', ''#888'')"

section \<open>Fetched records\<close>

record item =
  i_name :: "string option"
  i_key :: "string option"
  i_type :: "string option"
  i_value_type :: "string option"
  i_delay :: "string option"
  i_history :: "string option"
  i_status :: "string option"
  i_tags :: "pydict list option"
  i_preprocessing :: "pydict list option"

record trigger =
  t_description :: "string option"
  t_expression :: "string option"
  t_priority :: "string option"
  t_status :: "string option"
  t_comments :: "string option"
  t_tags :: "pydict list option"
  t_dependencies :: "pydict list option"

record problem =
  p_name :: "string option"
  p_severity :: "string option"
  p_clock :: "string option"
  p_acknowledged :: "string option"

record event =
  e_name :: "string option"

section \<open>gerar_estatisticas\<close>

fun counter_add :: "'a \<Rightarrow> ('a \<times> nat) list \<Rightarrow> ('a \<times> nat) list" where
  "counter_add k [] = [(k, 1)]"
| "counter_add k ((k', c) # r) = (if k = k' then (k', Suc c) # r else (k', c) # counter_add k r)"

definition Counter :: "'a list \<Rightarrow> ('a \<times> nat) list" where
  \<comment> \<open>\<open>collections.Counter(iterable)\<close>: a dict in insertion order, key to count\<close>
  "Counter xs = foldl (\<lambda>acc k. counter_add k acc) [] xs"

definition most_common_all :: "('a \<times> nat) list \<Rightarrow> ('a \<times> nat) list" where
  \<comment> \<open>\<open>Counter.most_common()\<close>: \<open>sorted(items, key=count, reverse=True)\<close>, a stable sort\<close>
  "most_common_all c = sort_key (\<lambda>kc. - int (snd kc)) c"

definition most_common :: "nat \<Rightarrow> ('a \<times> nat) list \<Rightarrow> ('a \<times> nat) list" where
  \<comment> \<open>\<open>Counter.most_common(n)\<close>: \<open>heapq.nlargest\<close>, the first \<open>n\<close> of the same order\<close>
  "most_common n c = take n (most_common_all c)"

definition truthy :: "'a list option \<Rightarrow> bool" where
  \<comment> \<open>\<open>if d.get(key)\<close> for a list (or string) field: present and not empty\<close>
  "truthy v = (case v of None \<Rightarrow> False | Some xs \<Rightarrow> xs \<noteq> [])"

record item_stats =
  is_total :: nat
  is_ativos :: nat
  is_desabilitados :: nat
  is_por_tipo :: "(string \<times> nat) list"
  is_por_valor :: "(string \<times> nat) list"
  is_com_preprocessing :: nat
  is_com_tags :: nat

record trigger_stats =
  ts_total :: nat
  ts_ativas :: nat
  ts_desabilitadas :: nat
  ts_por_prioridade :: "(string \<times> nat) list"
  ts_com_dependencias :: nat
  ts_com_tags :: nat

record stats =
  st_itens :: item_stats
  st_triggers :: trigger_stats

definition table_get :: "(string \<times> 'a) list \<Rightarrow> string option \<Rightarrow> 'a \<Rightarrow> 'a" where
  \<comment> \<open>\<open>TABLE.get(d.get(key), default)\<close>: an absent key looks \<open>None\<close> up, which no table has\<close>
  "table_get tbl k d = (case k of None \<Rightarrow> d | Some s \<Rightarrow> get_or (map_of tbl s) d)"

definition gerar_estatisticas :: "item list \<Rightarrow> trigger list \<Rightarrow> stats" where
  "gerar_estatisticas itens triggers =
     \<lparr>st_itens =
        \<lparr>is_total = length itens,
         is_ativos = length (filter (\<lambda>i. i_status i = Some ''0'') itens),
         is_desabilitados = length (filter (\<lambda>i. i_status i = Some ''1'') itens),
         is_por_tipo = Counter (map (\<lambda>i. table_get ITEM_TYPES (i_type i) ''Desconhecido'') itens),
         is_por_valor = Counter (map (\<lambda>i. table_get VALUE_TYPES (i_value_type i) ''Desconhecido'') itens),
         is_com_preprocessing = length (filter (\<lambda>i. truthy (i_preprocessing i)) itens),
         is_com_tags = length (filter (\<lambda>i. truthy (i_tags i)) itens)\<rparr>,
      st_triggers =
        \<lparr>ts_total = length triggers,
         ts_ativas = length (filter (\<lambda>t. t_status t = Some ''0'') triggers),
         ts_desabilitadas = length (filter (\<lambda>t. t_status t = Some ''1'') triggers),
         ts_por_prioridade = Counter (map (\<lambda>t. get_or (t_priority t) ''0'') triggers),
         ts_com_dependencias = length (filter (\<lambda>t. truthy (t_dependencies t)) triggers),
         ts_com_tags = length (filter (\<lambda>t. truthy (t_tags t)) triggers)\<rparr>\<rparr>"

section \<open>Problem duration\<close>

definition problem_clock :: "problem \<Rightarrow> error + int" where
  \<comment> \<open>\<open>int(problem.get("clock", 0))\<close>\<close>
  "problem_clock p = (case p_clock p of None \<Rightarrow> Inr 0 | Some s \<Rightarrow> py_int s)"

definition html_duracao :: "int \<Rightarrow> int \<Rightarrow> string" where
  \<comment> \<open>lines 854-866; \<open>now\<close> is \<open>int(datetime.now().timestamp())\<close>\<close>
  "html_duracao now clock =
     (if clock \<noteq> 0 then
        (let duracao_seg = now - clock;
             dias = duracao_seg div 86400;
             horas = (duracao_seg mod 86400) div 3600;
             minutos = (duracao_seg mod 3600) div 60
         in if dias > 0 then str_int dias @ ''d '' @ str_int horas @ ''h '' @ str_int minutos @ ''m''
            else if horas > 0 then str_int horas @ ''h '' @ str_int minutos @ ''m''
            else str_int minutos @ ''m'')
      else ''-'')"

definition excel_duracao :: "int \<Rightarrow> int \<Rightarrow> string" where
  \<comment> \<open>lines 1187-1199\<close>
  "excel_duracao now clock =
     (if clock \<noteq> 0 then
        (let duracao_seg = now - clock;
             dias = duracao_seg div 86400;
             horas = (duracao_seg mod 86400) div 3600;
             minutos = (duracao_seg mod 3600) div 60
         in if dias > 0 then str_int dias @ ''d '' @ str_int horas @ ''h '' @ str_int minutos @ ''m''
            else if horas > 0 then str_int horas @ ''h '' @ str_int minutos @ ''m''
            else str_int minutos @ ''m'')
      else ''-'')"

section \<open>Percentages\<close>

text \<open>
  A percentage is the Python expression \<open>count / denominator * 100\<close> on two ints: a true
  division and a product in binary64 arithmetic. \<open>Pct count denominator\<close> keeps the two
  operands; \<open>pct_value\<close> is the float the expression evaluates to, as the rational it
  denotes: both operations round the exact result to the nearest value with a 53-bit
  significand, ties to even (counts are far below the overflow and underflow ranges).
\<close>

datatype pct = Pct nat nat

fun bits :: "nat \<Rightarrow> nat" where
  "bits n = (if n = 0 then 0 else Suc (bits (n div 2)))"

declare bits.simps [simp del]

definition pow2 :: "int \<Rightarrow> rat" where
  "pow2 e = (if 0 \<le> e then 2 ^ nat e else 1 / 2 ^ nat (- e))"

definition round_half_even :: "rat \<Rightarrow> int" where
  "round_half_even q =
     (let f = \<lfloor>q\<rfloor>; r = q - of_int f
      in if r < 1 / 2 then f else if 1 / 2 < r then f + 1 else if even f then f else f + 1)"

definition floor_log2 :: "rat \<Rightarrow> int" where
  \<comment> \<open>for \<open>0 < x\<close>: the \<open>e\<close> with \<open>2 ^ e \<le> x < 2 ^ (e + 1)\<close>\<close>
  "floor_log2 x =
     (let (p, q) = quotient_of x; k = int (bits (nat p)) - int (bits (nat q))
      in if pow2 k \<le> x then k else k - 1)"

definition fl :: "rat \<Rightarrow> rat" where
  \<comment> \<open>the binary64 value nearest to \<open>x \<ge> 0\<close>\<close>
  "fl x = (if x = 0 then 0
           else let ulp = pow2 (floor_log2 x - 52) in of_int (round_half_even (x / ulp)) * ulp)"

fun pct_value :: "pct \<Rightarrow> rat" where
  "pct_value (Pct c d) = fl (fl (of_nat c / of_nat d) * 100)"

definition fmt_1f :: "rat \<Rightarrow> string" where
  \<comment> \<open>the format \<open>{x:.1f}\<close> for a float \<open>x \<ge> 0\<close>: correctly rounded to one decimal\<close>
  "fmt_1f x = (let t = round_half_even (x * 10) in str_int (t div 10) @ ''.'' @ str_int (t mod 10))"

section \<open>gerar_html\<close>

text \<open>
  The document is one f-string template; its literal text (markup, style sheet, script)
  is fixed, so the model keeps the values interpolated into it, in document order, and
  the rows each loop appends. Writing the file is the caller's collaborator and is not
  modelled. The clock and the date conversions of \<open>datetime\<close> are parameters.
\<close>

record env =
  now :: int
  fromtimestamp :: "int \<Rightarrow> error + string"
  fromisoformat :: "string \<Rightarrow> error + string"
  agora :: string

text \<open>
  \<open>now\<close> is \<open>int(datetime.now().timestamp())\<close>; \<open>fromtimestamp clock\<close> is
  \<open>datetime.fromtimestamp(clock).strftime("%d/%m/%Y %H:%M:%S")\<close>, which raises for a clock
  outside the platform's range; \<open>fromisoformat s\<close> is
  \<open>datetime.fromisoformat(s).strftime("%d/%m/%Y %H:%M:%S")\<close>; \<open>agora\<close> is the footer's
  \<open>datetime.now().strftime(...)\<close>.
\<close>

record host =
  hostid :: string
  host_host :: string
  host_name :: string

record export_data =
  ed_host :: host
  ed_data_exportacao :: string
  ed_itens :: "item list"
  ed_triggers :: "trigger list"
  ed_problems :: "problem list"
  ed_events :: "event list"

text \<open>
  \<open>ed_data_exportacao\<close> is \<open>export_data["export_info"]["data_exportacao"]\<close>. The four
  lists are read with \<open>.get(key, [])\<close>: an absent key is the empty list.
\<close>

definition item_sort_key :: "item \<Rightarrow> string" where
  "item_sort_key x = lower (get_or (i_name x) [])"

definition itens_sorted :: "item list \<Rightarrow> item list" where
  "itens_sorted itens = sort_key item_sort_key itens"

definition trigger_sort_key :: "trigger \<Rightarrow> error + int \<times> string" where
  "trigger_sort_key x =
     (case py_int (get_or (t_priority x) ''0'') of
        Inl e \<Rightarrow> Inl e
      | Inr p \<Rightarrow> Inr (- p, lower (get_or (t_description x) [])))"

definition triggers_sorted :: "trigger list \<Rightarrow> error + trigger list" where
  "triggers_sorted triggers =
     (case map_err trigger_sort_key triggers of
        Inl e \<Rightarrow> Inl e
      | Inr ks \<Rightarrow> Inr (map snd (sort_key fst (zip ks triggers))))"

text \<open>
  Python's \<open>sorted\<close> computes the key of every element first, in list order (so the
  first failing \<open>int()\<close> raises), and then sorts stably by key.
\<close>

definition span_tag :: string where
  "span_tag = ''<span class='' @ [CHR 0x22] @ ''tag'' @ [CHR 0x22] @ ''>''"

definition html_tag :: "pydict \<Rightarrow> error + string" where
  "html_tag tag =
     (let tag_value = (case map_of tag ''value'' of
                         None \<Rightarrow> []
                       | Some v \<Rightarrow> if v \<noteq> [] then '':'' @ v else [])
      in case map_of tag ''tag'' of
           None \<Rightarrow> Inl KeyError
         | Some t \<Rightarrow> Inr (span_tag @ t @ tag_value @ ''</span>''))"

definition html_tags :: "pydict list option \<Rightarrow> error + string" where
  "html_tags tags =
     (case map_err html_tag (get_or tags []) of Inl e \<Rightarrow> Inl e | Inr chips \<Rightarrow> Inr (concat chips))"

definition or_dash :: "string \<Rightarrow> string" where
  "or_dash s = (if s = [] then ''-'' else s)"

definition status_class :: "string option \<Rightarrow> string" where
  "status_class st = (if st = Some ''0'' then ''status-active'' else ''status-disabled'')"

record item_row =
  ir_class :: string
  ir_status :: string
  ir_name :: string
  ir_key :: string
  ir_tipo :: string
  ir_valor_tipo :: string
  ir_delay :: string
  ir_history :: string
  ir_tags :: string

definition html_item_status :: "item \<Rightarrow> string \<times> string" where
  "html_item_status item = get_or (map_of STATUS_MAP (get_or (i_status item) ''0'')) Desconhecido"

definition html_item_row :: "item \<Rightarrow> error + item_row" where
  "html_item_row item =
     (let status_info = html_item_status item;
          tipo = get_or (map_of ITEM_TYPES (get_or (i_type item) [])) ''Desconhecido'';
          valor_tipo = get_or (map_of VALUE_TYPES (get_or (i_value_type item) [])) ''Desconhecido''
      in case html_tags (i_tags item) of
           Inl e \<Rightarrow> Inl e
         | Inr tags_html \<Rightarrow>
             Inr \<lparr>ir_class = status_class (i_status item), ir_status = fst status_info,
                  ir_name = get_or (i_name item) [], ir_key = get_or (i_key item) [],
                  ir_tipo = tipo, ir_valor_tipo = valor_tipo,
                  ir_delay = get_or (i_delay item) ''-'', ir_history = get_or (i_history item) ''-'',
                  ir_tags = or_dash tags_html\<rparr>)"

record trigger_row =
  tr_class :: string
  tr_status :: string
  tr_color :: string
  tr_priority :: string
  tr_description :: string
  tr_expression :: string
  tr_comments :: string
  tr_tags :: string

definition html_trigger_status :: "trigger \<Rightarrow> string \<times> string" where
  "html_trigger_status trigger =
     get_or (map_of STATUS_MAP (get_or (t_status trigger) ''0'')) Desconhecido"

definition html_priority_info :: "string option \<Rightarrow> string \<times> string" where
  "html_priority_info code = get_or (map_of TRIGGER_PRIORITIES (get_or code ''0'')) Desconhecido"

definition html_trigger_row :: "trigger \<Rightarrow> error + trigger_row" where
  "html_trigger_row trigger =
     (let status_info = html_trigger_status trigger;
          priority_info = html_priority_info (t_priority trigger)
      in case html_tags (t_tags trigger) of
           Inl e \<Rightarrow> Inl e
         | Inr tags_html \<Rightarrow>
             Inr \<lparr>tr_class = status_class (t_status trigger), tr_status = fst status_info,
                  tr_color = snd priority_info, tr_priority = fst priority_info,
                  tr_description = get_or (t_description trigger) [],
                  tr_expression = get_or (t_expression trigger) [],
                  tr_comments = or_dash (get_or (t_comments trigger) []),
                  tr_tags = or_dash tags_html\<rparr>)"

section \<open>Example records\<close>

definition mk_item :: "string \<Rightarrow> string option \<Rightarrow> item" where
  "mk_item nm st =
     \<lparr>i_name = Some nm, i_key = Some ''system.cpu.load'', i_type = Some ''0'',
      i_value_type = Some ''3'', i_delay = Some ''1m'', i_history = Some ''90d'',
      i_status = st, i_tags = Some [], i_preprocessing = Some []\<rparr>"


definition mk_problem :: "string option \<Rightarrow> string option \<Rightarrow> problem" where
  "mk_problem nm clock =
     \<lparr>p_name = nm, p_severity = Some ''4'', p_clock = clock, p_acknowledged = Some ''0''\<rparr>"

section \<open>gerar_html: statistics cards, charts, alerts and frequency table\<close>

definition counter_get :: "(string \<times> nat) list \<Rightarrow> string \<Rightarrow> nat" where
  "counter_get c k = get_or (map_of c k) 0"

definition html_severidade :: "stats \<Rightarrow> (string \<times> string \<times> nat) list" where
  "html_severidade st =
     map (\<lambda>priority.
            let count = counter_get (ts_por_prioridade (st_triggers st)) priority;
                info = get_or (map_of TRIGGER_PRIORITIES priority) Desconhecido
            in (snd info, fst info, count))
         [''5'', ''4'', ''3'', ''2'', ''1'', ''0'']"

text \<open>
  One row per priority, 5 down to 0: colour, name, count. The loop also computes a
  percentage of the trigger total, which the template never uses.
\<close>

record bar =
  bar_label :: string
  bar_width :: pct
  bar_count :: nat

definition max_count :: "(string \<times> nat) list \<Rightarrow> nat" where
  "max_count c = (if c = [] then 1 else Max (set (map snd c)))"

definition html_por_tipo :: "stats \<Rightarrow> bar list" where
  "html_por_tipo st =
     (let top_tipos = most_common 8 (is_por_tipo (st_itens st));
          max_tipo = max_count top_tipos
      in map (\<lambda>(tipo, count). \<lparr>bar_label = tipo, bar_width = Pct count max_tipo, bar_count = count\<rparr>)
             top_tipos)"

definition html_por_valor :: "stats \<Rightarrow> bar list" where
  "html_por_valor st =
     (let max_valor = max_count (is_por_valor (st_itens st))
      in map (\<lambda>(valor, count). \<lparr>bar_label = valor, bar_width = Pct count max_valor, bar_count = count\<rparr>)
             (most_common_all (is_por_valor (st_itens st))))"

datatype alert_row =
  AlertRow (ar_color: string) (ar_severity: string) (ar_name: string) (ar_inicio: string)
    (ar_duracao: string) (ar_ack: string)
  | NenhumAlerta

definition ack_label :: "string option \<Rightarrow> string" where
  "ack_label a = (if a = Some ''1'' then ''Sim'' else ''N'' @ [CHR 0xE3] @ ''o'')"

definition html_problem_row :: "env \<Rightarrow> problem \<Rightarrow> error + alert_row" where
  "html_problem_row ev problem =
     (let severity_info = html_priority_info (p_severity problem)
      in case problem_clock problem of
           Inl e \<Rightarrow> Inl e
         | Inr clock \<Rightarrow>
             (case (if clock \<noteq> 0 then fromtimestamp ev clock else Inr ''-'') of
                Inl e \<Rightarrow> Inl e
              | Inr inicio \<Rightarrow>
                  Inr (AlertRow (snd severity_info) (fst severity_info)
                         (get_or (p_name problem) []) inicio
                         (html_duracao (now ev) clock) (ack_label (p_acknowledged problem)))))"

definition html_alertas :: "env \<Rightarrow> problem list \<Rightarrow> error + alert_row list" where
  "html_alertas ev problems =
     (if problems \<noteq> [] then map_err (html_problem_row ev) problems else Inr [NenhumAlerta])"

record freq_row =
  fr_pos :: nat
  fr_name :: string
  fr_count :: nat
  fr_width :: pct
  fr_percent :: string

definition enumerate1 :: "'a list \<Rightarrow> (nat \<times> 'a) list" where
  "enumerate1 xs = zip [1 ..< Suc (length xs)] xs"

definition top_alerts :: "event list \<Rightarrow> (string \<times> nat) list" where
  "top_alerts events = most_common 20 (Counter (map (\<lambda>e. get_or (e_name e) []) events))"

definition html_frequentes :: "event list \<Rightarrow> freq_row list option" where
  "html_frequentes events =
     (if events \<noteq> [] then
        (let total_events = length events
         in Some (map (\<lambda>(pos, alert_name, count).
                         let percentual = (if total_events > 0 then Pct count total_events
                                           else Pct 0 1)
                         in \<lparr>fr_pos = pos, fr_name = alert_name, fr_count = count,
                             fr_width = percentual, fr_percent = fmt_1f (pct_value percentual) @ ''%''\<rparr>)
                      (enumerate1 (top_alerts events))))
      else None)"

text \<open>
  \<open>None\<close>: the whole frequency section is left out of the document. The \<open>else 0\<close> branch of
  the percentage (total 0) cannot be reached inside \<open>if events\<close>; \<open>Pct 0 1\<close> stands for
  its value 0.
\<close>

record html =
  h_host_name :: string
  h_host :: string
  h_hostid :: string
  h_data_exportacao :: string
  h_itens_card :: "nat list"
  h_triggers_card :: "nat list"
  h_severidade :: "(string \<times> string \<times> nat) list"
  h_por_tipo :: "bar list"
  h_por_valor :: "bar list"
  h_itens_count :: nat
  h_itens :: "item_row list"
  h_triggers_count :: nat
  h_triggers :: "trigger_row list"
  h_alertas_count :: nat
  h_alertas :: "alert_row list"
  h_frequentes :: "freq_row list option"
  h_footer :: string

definition gerar_html :: "env \<Rightarrow> export_data \<Rightarrow> stats \<Rightarrow> error + html" where
  "gerar_html ev ed st =
     (let itens = ed_itens ed; triggers = ed_triggers ed;
          its = itens_sorted itens
      in case triggers_sorted triggers of Inl e \<Rightarrow> Inl e | Inr trs \<Rightarrow>
         case fromisoformat ev (ed_data_exportacao ed) of Inl e \<Rightarrow> Inl e | Inr data \<Rightarrow>
         case map_err html_item_row its of Inl e \<Rightarrow> Inl e | Inr item_rows \<Rightarrow>
         case map_err html_trigger_row trs of Inl e \<Rightarrow> Inl e | Inr trigger_rows \<Rightarrow>
         case html_alertas ev (ed_problems ed) of Inl e \<Rightarrow> Inl e | Inr alert_rows \<Rightarrow>
           Inr \<lparr>h_host_name = host_name (ed_host ed), h_host = host_host (ed_host ed),
                h_hostid = hostid (ed_host ed), h_data_exportacao = data,
                h_itens_card =
                  [is_total (st_itens st), is_ativos (st_itens st), is_desabilitados (st_itens st),
                   is_com_preprocessing (st_itens st), is_com_tags (st_itens st)],
                h_triggers_card =
                  [ts_total (st_triggers st), ts_ativas (st_triggers st),
                   ts_desabilitadas (st_triggers st), ts_com_dependencias (st_triggers st),
                   ts_com_tags (st_triggers st)],
                h_severidade = html_severidade st,
                h_por_tipo = html_por_tipo st, h_por_valor = html_por_valor st,
                h_itens_count = length itens, h_itens = item_rows,
                h_triggers_count = length triggers, h_triggers = trigger_rows,
                h_alertas_count = length (ed_problems ed), h_alertas = alert_rows,
                h_frequentes = html_frequentes (ed_events ed),
                h_footer = agora ev\<rparr>)"

text \<open>
  The cases follow the order in which the function evaluates: both sorts first, then the
  header with the export date, the item rows, the trigger rows, the alerts.
\<close>

section \<open>gerar_excel\<close>

text \<open>
  A sheet is the list of its data rows under the header row; fonts, fills, borders and
  column widths do not change any cell value and are not modelled. Each value reaches
  its cell through \<open>ws.cell(row, col, value)\<close>: openpyxl keeps the first 32767 characters
  of a string and raises \<open>IllegalCharacterError\<close> when they contain one of the control
  characters 0x00-0x08, 0x0B, 0x0C, 0x0E-0x1F. A row's values are all computed before its
  first cell is written, and the cells are written left to right.
\<close>

definition illegal_char :: "char \<Rightarrow> bool" where
  "illegal_char c =
     (let n = of_char c :: nat in n \<le> 8 \<or> n = 11 \<or> n = 12 \<or> (14 \<le> n \<and> n \<le> 31))"

definition cell_write :: "string \<Rightarrow> error + string" where
  "cell_write v =
     (let t = take 32767 v
      in if list_ex illegal_char t then Inl IllegalCharacterError else Inr t)"

definition excel_tag :: "pydict \<Rightarrow> error + string" where
  "excel_tag t =
     (if (case map_of t ''value'' of None \<Rightarrow> False | Some v \<Rightarrow> v \<noteq> []) then
        (case map_of t ''tag'' of
           None \<Rightarrow> Inl KeyError
         | Some g \<Rightarrow> Inr (g @ '':'' @ get_or (map_of t ''value'') []))
      else (case map_of t ''tag'' of None \<Rightarrow> Inl KeyError | Some g \<Rightarrow> Inr g))"

fun join :: "string \<Rightarrow> string list \<Rightarrow> string" where
  "join sep [] = []"
| "join sep [x] = x"
| "join sep (x # y # r) = x @ sep @ join sep (y # r)"

definition excel_tags :: "pydict list option \<Rightarrow> error + string" where
  "excel_tags tags =
     (case map_err excel_tag (get_or tags []) of
        Inl e \<Rightarrow> Inl e
      | Inr parts \<Rightarrow> Inr (join '', '' parts))"

definition excel_status :: "string option \<Rightarrow> string" where
  "excel_status st = (if st = Some ''0'' then ''Ativo'' else ''Desabilitado'')"

definition excel_item_row :: "item \<Rightarrow> error + string list" where
  "excel_item_row item =
     (let status = excel_status (i_status item);
          tipo = get_or (map_of ITEM_TYPES (get_or (i_type item) [])) ''Desconhecido'';
          valor_tipo = get_or (map_of VALUE_TYPES (get_or (i_value_type item) [])) ''Desconhecido''
      in case excel_tags (i_tags item) of
           Inl e \<Rightarrow> Inl e
         | Inr tags \<Rightarrow>
             map_err cell_write
               [status, get_or (i_name item) [], get_or (i_key item) [], tipo, valor_tipo,
                get_or (i_delay item) ''-'', get_or (i_history item) ''-'', or_dash tags])"

definition excel_priority_name :: "string option \<Rightarrow> string" where
  "excel_priority_name code =
     fst (get_or (map_of TRIGGER_PRIORITIES (get_or code ''0'')) Desconhecido)"

definition excel_trigger_row :: "trigger \<Rightarrow> error + string list" where
  "excel_trigger_row trigger =
     (let status = excel_status (t_status trigger);
          priority_name = excel_priority_name (t_priority trigger)
      in case excel_tags (t_tags trigger) of
           Inl e \<Rightarrow> Inl e
         | Inr tags \<Rightarrow>
             map_err cell_write
               [status, priority_name, get_or (t_description trigger) [],
                get_or (t_expression trigger) [], or_dash (get_or (t_comments trigger) []),
                or_dash tags])"

datatype excel_alert = ExcelAlert "string list" | ExcelNenhumAlerta

definition excel_problem_row :: "env \<Rightarrow> problem \<Rightarrow> error + excel_alert" where
  "excel_problem_row ev problem =
     (let severity_name = excel_priority_name (p_severity problem)
      in case problem_clock problem of
           Inl e \<Rightarrow> Inl e
         | Inr clock \<Rightarrow>
             (case (if clock \<noteq> 0 then fromtimestamp ev clock else Inr ''-'') of
                Inl e \<Rightarrow> Inl e
              | Inr inicio \<Rightarrow>
                  (case map_err cell_write
                          [severity_name, get_or (p_name problem) [], inicio,
                           excel_duracao (now ev) clock, ack_label (p_acknowledged problem)] of
                     Inl e \<Rightarrow> Inl e
                   | Inr cells \<Rightarrow> Inr (ExcelAlert cells))))"

definition excel_alertas :: "env \<Rightarrow> problem list \<Rightarrow> error + excel_alert list" where
  "excel_alertas ev problems =
     (if problems \<noteq> [] then map_err (excel_problem_row ev) problems
      else Inr [ExcelNenhumAlerta])"

definition excel_top_row ::
  "nat \<Rightarrow> nat \<times> string \<times> nat \<Rightarrow> error + nat \<times> string \<times> nat \<times> string" where
  "excel_top_row total_events r =
     (case r of (pos, alert_name, cnt) \<Rightarrow>
        (let percentual = (if total_events > 0 then Pct cnt total_events else Pct 0 1)
         in case cell_write alert_name of
              Inl e \<Rightarrow> Inl e
            | Inr nm \<Rightarrow>
                (case cell_write (fmt_1f (pct_value percentual) @ ''%'') of
                   Inl e \<Rightarrow> Inl e
                 | Inr pc \<Rightarrow> Inr (pos, nm, cnt, pc))))"

definition excel_top ::
  "event list \<Rightarrow> error + (nat \<times> string \<times> nat \<times> string) list option" where
  "excel_top events =
     (if events \<noteq> [] then
        (case map_err (excel_top_row (length events)) (enumerate1 (top_alerts events)) of
           Inl e \<Rightarrow> Inl e
         | Inr rows \<Rightarrow> Inr (Some rows))
      else Inr None)"

record excel =
  x_host :: "string list"
  x_resumo :: "(string \<times> string \<times> nat) list"
  x_itens :: "string list list"
  x_triggers :: "string list list"
  x_alertas :: "excel_alert list"
  x_top :: "(nat \<times> string \<times> nat \<times> string) list option"

definition gerar_excel :: "env \<Rightarrow> export_data \<Rightarrow> stats \<Rightarrow> error + excel" where
  "gerar_excel ev ed st =
     (let itens = ed_itens ed; triggers = ed_triggers ed;
          problems = ed_problems ed; events = ed_events ed
      in case map_err cell_write
                [host_name (ed_host ed), host_host (ed_host ed), hostid (ed_host ed)] of
           Inl e \<Rightarrow> Inl e | Inr host_cells \<Rightarrow>
         case fromisoformat ev (ed_data_exportacao ed) of Inl e \<Rightarrow> Inl e | Inr data \<Rightarrow>
         case cell_write data of Inl e \<Rightarrow> Inl e | Inr data_cell \<Rightarrow>
         case map_err excel_item_row (itens_sorted itens) of Inl e \<Rightarrow> Inl e | Inr item_rows \<Rightarrow>
         case triggers_sorted triggers of Inl e \<Rightarrow> Inl e | Inr trs \<Rightarrow>
         case map_err excel_trigger_row trs of Inl e \<Rightarrow> Inl e | Inr trigger_rows \<Rightarrow>
         case excel_alertas ev problems of Inl e \<Rightarrow> Inl e | Inr alert_rows \<Rightarrow>
         case excel_top events of Inl e \<Rightarrow> Inl e | Inr top_rows \<Rightarrow>
           Inr \<lparr>x_host = host_cells @ [data_cell],
                x_resumo =
                  [(''Itens'', ''Total'', is_total (st_itens st)),
                   ([], ''Ativos'', is_ativos (st_itens st)),
                   ([], ''Desabilitados'', is_desabilitados (st_itens st)),
                   ([], ''Com Preprocessing'', is_com_preprocessing (st_itens st)),
                   ([], ''Com Tags'', is_com_tags (st_itens st)),
                   (''Triggers'', ''Total'', ts_total (st_triggers st)),
                   ([], ''Ativas'', ts_ativas (st_triggers st)),
                   ([], ''Desabilitadas'', ts_desabilitadas (st_triggers st)),
                   ([], ''Com Depend'' @ [CHR 0xEA] @ ''ncias'', ts_com_dependencias (st_triggers st)),
                   ([], ''Com Tags'', ts_com_tags (st_triggers st)),
                   (''Alertas'', ''Ativos'', length problems),
                   ([], ''Hist'' @ [CHR 0xF3] @ ''rico ('' @ [CHR 0xFA] @ ''ltimos eventos)'', length events)],
                x_itens = item_rows, x_triggers = trigger_rows, x_alertas = alert_rows,
                x_top = top_rows\<rparr>)"

text \<open>
  The cases follow the sheets in the order the function fills them: the summary (host
  cells, export date, statistics), the items, the triggers, the alerts, the top 20.
\<close>

text \<open>Well-formedness of the fields a renderer converts.\<close>

definition is_ok :: "error + 'a \<Rightarrow> bool" where
  "is_ok r = (case r of Inl _ \<Rightarrow> False | Inr _ \<Rightarrow> True)"

definition clock_ok :: "env \<Rightarrow> problem \<Rightarrow> bool" where
  "clock_ok ev p =
     (case p_clock p of
        None \<Rightarrow> True
      | Some s \<Rightarrow> (case py_int s of Inl _ \<Rightarrow> False
                  | Inr c \<Rightarrow> c = 0 \<or> is_ok (fromtimestamp ev c)))"

text \<open>
  The clock field is absent, or an integer literal that is 0 or that \<open>datetime\<close>
  converts. \<open>clock_of\<close> is the timestamp such a field denotes, \<open>inicio_of\<close> the start date
  it is displayed as, \<open>cell_ok\<close> a text a spreadsheet cell accepts.
\<close>

definition clock_of :: "problem \<Rightarrow> int" where
  "clock_of p =
     (case p_clock p of
        None \<Rightarrow> 0
      | Some s \<Rightarrow> (case py_int s of Inl _ \<Rightarrow> 0 | Inr c \<Rightarrow> c))"

definition inicio_of :: "env \<Rightarrow> problem \<Rightarrow> string" where
  "inicio_of ev p =
     (if clock_of p = 0 then ''-''
      else (case fromtimestamp ev (clock_of p) of Inl _ \<Rightarrow> [] | Inr s \<Rightarrow> s))"

definition cell_ok :: "string \<Rightarrow> bool" where
  "cell_ok v =
     list_all (\<lambda>c. of_char c \<in> {9, 10, 13 :: nat} \<or> 32 \<le> (of_char c :: nat)) (take 32767 v)"

definition severity_of :: "string option \<Rightarrow> string \<times> string" where
  "severity_of code =
     (case map_of TRIGGER_PRIORITIES (case code of None \<Rightarrow> ''0'' | Some c \<Rightarrow> c) of
        None \<Rightarrow> (''Desconhecido'', ''#888'')
      | Some info \<Rightarrow> info)"

definition name_of :: "problem \<Rightarrow> string" where
  "name_of p = (case p_name p of None \<Rightarrow> [] | Some n \<Rightarrow> n)"

definition ack_of :: "problem \<Rightarrow> string" where
  "ack_of p = (if p_acknowledged p = Some ''1'' then ''Sim'' else ''N'' @ [CHR 0xE3] @ ''o'')"



definition ex_env :: env where
  "ex_env =
     \<lparr>now = 1700183900,
      fromtimestamp = (\<lambda>c. if 0 \<le> c \<and> c \<le> 253402300799 then Inr (str_int c) else Inl ValueError),
      fromisoformat = (\<lambda>s. if s = ''2023-11-15T10:00:00'' then Inr ''15/11/2023 10:00:00''
                           else Inl ValueError),
      agora = ''17/11/2023 01:18:20''\<rparr>"

text \<open>
  An example environment: the clock reads 1700183900, timestamps of the years 1970 to 9999
  convert (here to their decimal digits, standing for the formatted local date), any other
  raises, and one ISO date parses.
\<close>

definition ex_problems :: "problem list" where
  "ex_problems =
     [mk_problem (Some ''Disk full'') (Some ''1700000000''), mk_problem (Some ''High load'') None]"

text \<open>
  The trigger order in the words of the specification: by numeric priority code descending,
  ties by description ascending, compared case-insensitively.
\<close>

definition priority_ok :: "trigger \<Rightarrow> bool" where
  "priority_ok t = is_ok (py_int (get_or (t_priority t) ''0''))"

definition priority_code :: "trigger \<Rightarrow> int" where
  "priority_code t = (case py_int (get_or (t_priority t) ''0'') of Inl _ \<Rightarrow> 0 | Inr p \<Rightarrow> p)"

definition trigger_before :: "trigger \<Rightarrow> trigger \<Rightarrow> bool" where
  "trigger_before a b =
     (priority_code b < priority_code a
      \<or> (priority_code a = priority_code b
          \<and> lower (get_or (t_description a) []) \<le> lower (get_or (t_description b) [])))"

definition mk_trigger :: "string \<Rightarrow> string option \<Rightarrow> trigger" where
  "mk_trigger d p =
     \<lparr>t_description = Some d, t_expression = Some ''last(/host/key)>5'', t_priority = p,
      t_status = Some ''0'', t_comments = Some [], t_tags = Some [], t_dependencies = Some []\<rparr>"

definition ex_itens :: "item list" where
  "ex_itens =
     [mk_item ''memory'' (Some ''0''), mk_item ''CPU load'' (Some ''1''), mk_item ''disk'' (Some ''0'')]"

definition ex_triggers :: "trigger list" where
  "ex_triggers =
     [mk_trigger ''beta'' (Some ''3''), mk_trigger ''Alpha'' (Some ''3''), mk_trigger ''zeta'' (Some ''5'')]"

definition ex_events :: "event list" where
  "ex_events = map (\<lambda>n. \<lparr>e_name = Some n\<rparr>) [''A'', ''A'', ''B'', ''C'', ''C'', ''C'']"

definition ex_data :: export_data where
  "ex_data =
     \<lparr>ed_host = \<lparr>hostid = ''10084'', host_host = ''srv01'', host_name = ''Server 01''\<rparr>,
      ed_data_exportacao = ''2023-11-15T10:00:00'',
      ed_itens = ex_itens, ed_triggers = ex_triggers, ed_problems = ex_problems,
      ed_events = ex_events\<rparr>"

text \<open>
  The record sets every conversion of \<open>gerar_html\<close> accepts: each trigger priority and
  problem clock that is present is an integer literal (the clock one that \<open>datetime\<close>
  converts), each tag entry has its \<open>"tag"\<close> key, and the export date is in ISO format.
\<close>

definition tags_ok :: "pydict list option \<Rightarrow> bool" where
  "tags_ok tags = list_all (\<lambda>tag. map_of tag ''tag'' \<noteq> None) (get_or tags [])"

definition well_formed :: "env \<Rightarrow> export_data \<Rightarrow> bool" where
  "well_formed ev ed =
     (list_all (\<lambda>i. tags_ok (i_tags i)) (ed_itens ed)
      \<and> list_all (\<lambda>t. priority_ok t \<and> tags_ok (t_tags t)) (ed_triggers ed)
      \<and> list_all (clock_ok ev) (ed_problems ed)
      \<and> is_ok (fromisoformat ev (ed_data_exportacao ed)))"

definition absent_item :: item where
  "absent_item =
     \<lparr>i_name = None, i_key = None, i_type = None, i_value_type = None, i_delay = None,
      i_history = None, i_status = None, i_tags = None, i_preprocessing = None\<rparr>"

definition absent_trigger :: trigger where
  "absent_trigger =
     \<lparr>t_description = None, t_expression = None, t_priority = None, t_status = None,
      t_comments = None, t_tags = None, t_dependencies = None\<rparr>"

definition absent_problem :: problem where
  "absent_problem = \<lparr>p_name = None, p_severity = None, p_clock = None, p_acknowledged = None\<rparr>"

definition bad_priority :: export_data where
  "bad_priority = ex_data\<lparr>ed_triggers := [mk_trigger ''Link down'' (Some ''high'')]\<rparr>"

definition bad_tag :: export_data where
  "bad_tag = ex_data\<lparr>ed_itens := [(mk_item ''cpu'' (Some ''0''))\<lparr>i_tags := Some [[(''value'', ''prod'')]]\<rparr>]\<rparr>"

definition bad_clock :: export_data where
  "bad_clock = ex_data\<lparr>ed_problems := [mk_problem (Some ''Disk full'') (Some ''yesterday'')]\<rparr>"

text \<open>Ten items of nine collection types, the last type twice.\<close>

definition ex_many_types :: "item list" where
  "ex_many_types =
     map (\<lambda>t. (mk_item ''probe'' (Some ''0''))\<lparr>i_type := Some t\<rparr>)
       [''0'', ''2'', ''3'', ''5'', ''7'', ''9'', ''10'', ''11'', ''12'', ''12'']"

text \<open>Three items of two value types.\<close>

definition ex_mixed_values :: "item list" where
  "ex_mixed_values =
     map (\<lambda>t. (mk_item ''probe'' (Some ''0''))\<lparr>i_value_type := Some t\<rparr>) [''3'', ''4'', ''3'']"

section \<open>Verified properties\<close>

lemma count_status_partition:
  "(\<forall>i \<in> set itens. i_status i = Some ''0'' \<or> i_status i = Some ''1'') \<Longrightarrow>
   length (filter (\<lambda>i. i_status i = Some ''0'') itens)
     + length (filter (\<lambda>i. i_status i = Some ''1'') itens) = length itens"
  by (induction itens) auto

text \<open>
  C3: when every item status is \<open>"0"\<close> or \<open>"1"\<close>, the active and disabled counts of
  \<open>gerar_estatisticas\<close> add up to the total; an item with any other status, or none,
  adds one to the total and nothing to either bucket.
\<close>

theorem active_plus_disabled_is_total:
  "((\<forall>i \<in> set itens. i_status i = Some ''0'' \<or> i_status i = Some ''1'') \<longrightarrow>
      is_ativos (st_itens (gerar_estatisticas itens triggers))
        + is_desabilitados (st_itens (gerar_estatisticas itens triggers))
      = is_total (st_itens (gerar_estatisticas itens triggers)))
   \<and> (i_status x \<noteq> Some ''0'' \<and> i_status x \<noteq> Some ''1'' \<longrightarrow>
      is_total (st_itens (gerar_estatisticas (pre @ x # post) triggers))
        = Suc (is_total (st_itens (gerar_estatisticas (pre @ post) triggers)))
      \<and> is_ativos (st_itens (gerar_estatisticas (pre @ x # post) triggers))
        = is_ativos (st_itens (gerar_estatisticas (pre @ post) triggers))
      \<and> is_desabilitados (st_itens (gerar_estatisticas (pre @ x # post) triggers))
        = is_desabilitados (st_itens (gerar_estatisticas (pre @ post) triggers)))"
  by (simp add: gerar_estatisticas_def count_status_partition)

theorem active_plus_disabled_is_total_witness:
  "list_all (\<lambda>i. i_status i = Some ''0'' \<or> i_status i = Some ''1'')
     [mk_item ''a'' (Some ''0''), mk_item ''b'' (Some ''1'')]
   \<and> is_ativos (st_itens (gerar_estatisticas [mk_item ''a'' (Some ''0''), mk_item ''b'' (Some ''1'')] [])) = 1
   \<and> is_desabilitados (st_itens (gerar_estatisticas [mk_item ''a'' (Some ''0''), mk_item ''b'' (Some ''1'')] [])) = 1
   \<and> is_total (st_itens (gerar_estatisticas [mk_item ''a'' (Some ''0''), mk_item ''b'' (Some ''1'')] [])) = 2
   \<and> i_status (mk_item ''c'' None) \<noteq> Some ''0'' \<and> i_status (mk_item ''c'' None) \<noteq> Some ''1''
   \<and> is_total (st_itens (gerar_estatisticas ([mk_item ''a'' (Some ''0'')] @ mk_item ''c'' None # [mk_item ''b'' (Some ''1'')]) [])) = 3
   \<and> is_ativos (st_itens (gerar_estatisticas ([mk_item ''a'' (Some ''0'')] @ mk_item ''c'' None # [mk_item ''b'' (Some ''1'')]) [])) = 1
   \<and> is_desabilitados (st_itens (gerar_estatisticas ([mk_item ''a'' (Some ''0'')] @ mk_item ''c'' None # [mk_item ''b'' (Some ''1'')]) [])) = 1"
  using active_plus_disabled_is_total
    [of "[mk_item ''a'' (Some ''0''), mk_item ''b'' (Some ''1'')]" "[]" "mk_item ''c'' None"
        "[mk_item ''a'' (Some ''0'')]" "[mk_item ''b'' (Some ''1'')]"]
  by (simp add: gerar_estatisticas_def mk_item_def)

subsection \<open>Loops that may raise\<close>

lemma map_err_Inr_iff: "map_err f xs = Inr ys \<longleftrightarrow> map f xs = map Inr ys"
proof (induction xs arbitrary: ys)
  case Nil
  then show ?case by auto
next
  case (Cons x xs)
  show ?case
  proof (cases "f x")
    case (Inl e)
    then show ?thesis by (cases ys) auto
  next
    case (Inr y)
    show ?thesis
    proof (cases "map_err f xs")
      case (Inl e)
      have "map f xs \<noteq> map Inr zs" for zs using Cons.IH [of zs] Inl by simp
      then show ?thesis using Inl Inr by (cases ys) auto
    next
      case inr: (Inr zs)
      then have "map f xs = map Inr zs" using Cons.IH by simp
      then show ?thesis using inr Inr by (cases ys) (auto dest: map_inj_on [OF _ inj_on_subset [OF inj_Inr]] simp: inj_map_eq_map)
    qed
  qed
qed

lemma map_err_total:
  "(\<forall>x \<in> set xs. \<exists>y. f x = Inr y) \<Longrightarrow> \<exists>ys. map_err f xs = Inr ys"
  by (induction xs) auto

lemma map_err_Inl:
  "map_err f xs = Inl e \<Longrightarrow> \<exists>x \<in> set xs. f x = Inl e"
  by (induction xs) (auto split: sum.splits)

lemma map_err_is_ok: "is_ok (map_err f xs) \<longleftrightarrow> list_all (\<lambda>x. is_ok (f x)) xs"
  by (induction xs) (auto simp: is_ok_def split: sum.splits)

lemma map_err_map: "(\<forall>x \<in> set xs. f x = Inr (g x)) \<Longrightarrow> map_err f xs = Inr (map g xs)"
  by (induction xs) auto

subsection \<open>Spreadsheet cells\<close>

lemma illegal_char_iff:
  "illegal_char c \<longleftrightarrow> \<not> (of_char c \<in> {9, 10, 13 :: nat} \<or> 32 \<le> (of_char c :: nat))"
proof -
  define n where "n = (of_char c :: nat)"
  have "(n \<le> 8 \<or> n = 11 \<or> n = 12 \<or> (14 \<le> n \<and> n \<le> 31)) \<longleftrightarrow> \<not> (n \<in> {9, 10, 13} \<or> 32 \<le> n)"
    by (simp only: insert_iff empty_iff) arith
  then show ?thesis by (simp only: illegal_char_def Let_def n_def)
qed

lemma cell_write_iff:
  "cell_write v = (if cell_ok v then Inr (take 32767 v) else Inl IllegalCharacterError)"
proof -
  define t where "t = take 32767 v"
  have "list_ex illegal_char t \<longleftrightarrow>
        \<not> list_all (\<lambda>c. of_char c \<in> {9, 10, 13 :: nat} \<or> 32 \<le> (of_char c :: nat)) t"
    unfolding list_ex_iff list_all_iff illegal_char_iff by blast
  then show ?thesis
    unfolding cell_write_def cell_ok_def Let_def t_def [symmetric] by presburger
qed

lemma legal_set:
  assumes "set v \<subseteq> S" and "\<forall>c \<in> S. of_char c \<in> {9, 10, 13 :: nat} \<or> 32 \<le> (of_char c :: nat)"
  shows "cell_ok v"
proof -
  have "set (take 32767 v) \<subseteq> S" using assms(1) set_take_subset by fastforce
  then show ?thesis unfolding cell_ok_def list_all_iff using assms(2) by blast
qed

lemma nat_digits_chars: "set (nat_digits n) \<subseteq> set ''0123456789''"
proof (induction n rule: nat_digits.induct)
  case (1 n)
  have d: "digit_char k \<in> set ''0123456789''" if "k < 10" for k
    using that unfolding digit_char_def by (intro nth_mem) simp
  show ?case
  proof (cases "n < 10")
    case True
    then show ?thesis using d [of n] by (subst nat_digits.simps) simp
  next
    case False
    then show ?thesis using 1 d [of "n mod 10"] by (subst nat_digits.simps) simp
  qed
qed

lemma str_int_chars:
  assumes "set ''-0123456789'' \<subseteq> S"
  shows "set (str_int i) \<subseteq> S"
proof -
  have a: "set ''0123456789'' \<subseteq> S" "CHR ''-'' \<in> S" using assms by auto
  have "set (nat_digits n) \<subseteq> S" for n using nat_digits_chars [of n] a(1) by (rule subset_trans)
  then show ?thesis using a(2) unfolding str_int_def by (simp only: set_append split: if_splits) auto
qed


lemma duracao_chars:
  assumes S: "set ''-0123456789dhm '' \<subseteq> S"
  shows "set (html_duracao nw c) \<subseteq> S" "set (excel_duracao nw c) \<subseteq> S"
proof -
  have "set ''-0123456789'' \<subseteq> S" using S by auto
  then have i: "set (str_int k) \<subseteq> S" for k by (rule str_int_chars)
  have l: "set ''d '' \<subseteq> S" "set ''h '' \<subseteq> S" "set ''m'' \<subseteq> S" "set ''-'' \<subseteq> S"
    using S by auto
  have f: "set (str_int a @ ''d '' @ str_int b @ ''h '' @ str_int e @ ''m'') \<subseteq> S"
    "set (str_int b @ ''h '' @ str_int e @ ''m'') \<subseteq> S" "set (str_int e @ ''m'') \<subseteq> S"
    for a b e
    using i [of a] i [of b] i [of e] l unfolding set_append by blast+
  show "set (html_duracao nw c) \<subseteq> S"
    unfolding html_duracao_def Let_def using f l(4) by presburger
  show "set (excel_duracao nw c) \<subseteq> S"
    unfolding excel_duracao_def Let_def using f l(4) by presburger
qed

lemma cell_ok_duracao: "cell_ok (html_duracao nw c)" "cell_ok (excel_duracao nw c)"
proof -
  have legal: "\<forall>c \<in> set ''-0123456789dhm ''. of_char c \<in> {9, 10, 13 :: nat} \<or> 32 \<le> (of_char c :: nat)"
    by simp
  show "cell_ok (html_duracao nw c)"
    using duracao_chars(1) [OF subset_refl] legal by (rule legal_set)
  show "cell_ok (excel_duracao nw c)"
    using duracao_chars(2) [OF subset_refl] legal by (rule legal_set)
qed

subsection \<open>Rows of the alerts table\<close>

lemma clock_ok_problem_clock: "clock_ok ev p \<Longrightarrow> problem_clock p = Inr (clock_of p)"
  by (auto simp: clock_ok_def problem_clock_def clock_of_def split: option.splits sum.splits)

lemma clock_ok_inicio:
  "clock_ok ev p \<Longrightarrow>
     (if clock_of p \<noteq> 0 then fromtimestamp ev (clock_of p) else Inr ''-'') = Inr (inicio_of ev p)"
  by (auto simp: clock_ok_def clock_of_def inicio_of_def is_ok_def split: option.splits sum.splits)

lemma not_clock_ok:
  "\<not> clock_ok ev p \<Longrightarrow>
     (\<exists>e. problem_clock p = Inl e)
     \<or> (\<exists>c e. problem_clock p = Inr c \<and> c \<noteq> 0 \<and> fromtimestamp ev c = Inl e)"
  by (auto simp: clock_ok_def problem_clock_def is_ok_def split: option.splits sum.splits)

lemma severity_of_eq:
  "html_priority_info code = severity_of code" "excel_priority_name code = fst (severity_of code)"
  by (auto simp: html_priority_info_def excel_priority_name_def severity_of_def get_or_def
      Desconhecido_def split: option.splits)

lemma name_ack_eq: "get_or (p_name p) [] = name_of p" "ack_label (p_acknowledged p) = ack_of p"
  by (auto simp: get_or_def name_of_def ack_label_def ack_of_def split: option.splits)

lemma html_problem_row_eq:
  assumes "clock_ok ev p"
  shows "html_problem_row ev p =
     Inr (AlertRow (snd (severity_of (p_severity p))) (fst (severity_of (p_severity p)))
            (name_of p) (inicio_of ev p) (html_duracao (now ev) (clock_of p)) (ack_of p))"
  unfolding html_problem_row_def Let_def clock_ok_problem_clock [OF assms] severity_of_eq name_ack_eq
  using clock_ok_inicio [OF assms] by simp

lemma html_problem_row_raises:
  assumes "\<not> clock_ok ev p"
  shows "\<not> is_ok (html_problem_row ev p)"
  using not_clock_ok [OF assms]
  by (auto simp: html_problem_row_def Let_def is_ok_def)

lemma severity_label_cell: "cell_write (fst (severity_of code)) = Inr (fst (severity_of code))"
proof -
  have "fst (severity_of code) \<in> set (''Desconhecido'' # map (fst \<circ> snd) TRIGGER_PRIORITIES)"
    unfolding severity_of_def
    by (auto split: option.splits dest!: map_of_SomeD intro!: image_eqI)
  then show ?thesis
    unfolding TRIGGER_PRIORITIES_def
    by (auto simp: cell_write_def illegal_char_def)
qed

lemma ack_cell: "cell_write (ack_of p) = Inr (ack_of p)"
  by (simp add: ack_of_def cell_write_def illegal_char_def)

lemma cell_write_error: "cell_write v = Inl e \<Longrightarrow> e = IllegalCharacterError"
  by (simp add: cell_write_def Let_def split: if_splits)

lemma excel_problem_row_eq:
  assumes "clock_ok ev p" "cell_ok (name_of p)" "cell_ok (inicio_of ev p)"
  shows "excel_problem_row ev p =
     Inr (ExcelAlert [fst (severity_of (p_severity p)), take 32767 (name_of p),
                      take 32767 (inicio_of ev p),
                      take 32767 (excel_duracao (now ev) (clock_of p)), ack_of p])"
proof -
  have c: "cell_write (name_of p) = Inr (take 32767 (name_of p))"
    "cell_write (inicio_of ev p) = Inr (take 32767 (inicio_of ev p))"
    "cell_write (excel_duracao (now ev) (clock_of p)) = Inr (take 32767 (excel_duracao (now ev) (clock_of p)))"
    using assms(2,3) cell_ok_duracao(2) by (simp_all only: cell_write_iff if_True)
  show ?thesis
    unfolding excel_problem_row_def Let_def clock_ok_problem_clock [OF assms(1)] severity_of_eq
      name_ack_eq
    using clock_ok_inicio [OF assms(1)] c severity_label_cell ack_cell by simp
qed

lemma excel_problem_row_raises:
  assumes "\<not> (clock_ok ev p \<and> cell_ok (name_of p) \<and> cell_ok (inicio_of ev p))"
  shows "\<not> is_ok (excel_problem_row ev p)"
proof (cases "clock_ok ev p")
  case False
  then show ?thesis using not_clock_ok [OF False]
    by (auto simp: excel_problem_row_def Let_def is_ok_def)
next
  case True
  then have bad: "cell_write (name_of p) = Inl IllegalCharacterError
      \<or> cell_write (inicio_of ev p) = Inl IllegalCharacterError"
    using assms by (auto simp: cell_write_iff)
  have "map_err cell_write
          [fst (severity_of (p_severity p)), name_of p, inicio_of ev p,
           excel_duracao (now ev) (clock_of p), ack_of p] = Inl IllegalCharacterError"
    using bad severity_label_cell [of "p_severity p"]
    by (auto split: sum.splits dest: cell_write_error)
  then show ?thesis
    unfolding excel_problem_row_def Let_def clock_ok_problem_clock [OF True] severity_of_eq
      name_ack_eq
    using clock_ok_inicio [OF True] by (simp add: is_ok_def)
qed

subsection \<open>Problem duration\<close>



lemma py_int_zero: "py_int ''0'' = Inr 0"
  by code_simp

lemma py_int_example: "py_int ''1700000000'' = Inr 1700000000"
  by code_simp

lemma str_int_examples:
  "str_int 1700000000 = ''1700000000''" "str_int 2 = ''2''" "str_int 3 = ''3''" "str_int 5 = ''5''"
  by (simp_all add: str_int_def nat_digits.simps digit_char_def)







subsection \<open>Active alerts\<close>

lemma html_alertas_rows:
  assumes "problems \<noteq> []" "list_all (clock_ok ev) problems"
  shows "html_alertas ev problems =
     Inr (map (\<lambda>p. AlertRow (snd (severity_of (p_severity p))) (fst (severity_of (p_severity p)))
                     (name_of p) (inicio_of ev p) (html_duracao (now ev) (clock_of p)) (ack_of p))
              problems)"
proof -
  have "\<forall>p \<in> set problems. html_problem_row ev p =
     Inr (AlertRow (snd (severity_of (p_severity p))) (fst (severity_of (p_severity p)))
            (name_of p) (inicio_of ev p) (html_duracao (now ev) (clock_of p)) (ack_of p))"
    using assms(2) html_problem_row_eq by (simp add: list_all_iff)
  then show ?thesis using assms(1) by (simp add: html_alertas_def map_err_map)
qed

lemma excel_alertas_rows:
  assumes "problems \<noteq> []"
    "list_all (\<lambda>p. clock_ok ev p \<and> cell_ok (name_of p) \<and> cell_ok (inicio_of ev p)) problems"
  shows "excel_alertas ev problems =
     Inr (map (\<lambda>p. ExcelAlert [fst (severity_of (p_severity p)), take 32767 (name_of p),
                                take 32767 (inicio_of ev p),
                                take 32767 (excel_duracao (now ev) (clock_of p)), ack_of p])
              problems)"
proof -
  have "\<forall>p \<in> set problems. excel_problem_row ev p =
     Inr (ExcelAlert [fst (severity_of (p_severity p)), take 32767 (name_of p),
                      take 32767 (inicio_of ev p),
                      take 32767 (excel_duracao (now ev) (clock_of p)), ack_of p])"
    using assms(2) excel_problem_row_eq by (simp add: list_all_iff)
  then show ?thesis using assms(1) by (simp add: excel_alertas_def map_err_map)
qed

lemma html_alertas_is_ok:
  "problems \<noteq> [] \<Longrightarrow> is_ok (html_alertas ev problems) \<longleftrightarrow> list_all (clock_ok ev) problems"
proof -
  have "is_ok (html_problem_row ev p) \<longleftrightarrow> clock_ok ev p" for p
    using html_problem_row_eq [of ev p] html_problem_row_raises [of ev p]
    by (cases "clock_ok ev p") (simp_all add: is_ok_def)
  then show "problems \<noteq> [] \<Longrightarrow> ?thesis"
    by (simp add: html_alertas_def map_err_is_ok)
qed

lemma excel_alertas_is_ok:
  "problems \<noteq> [] \<Longrightarrow>
     is_ok (excel_alertas ev problems) \<longleftrightarrow>
     list_all (\<lambda>p. clock_ok ev p \<and> cell_ok (name_of p) \<and> cell_ok (inicio_of ev p)) problems"
proof -
  have "is_ok (excel_problem_row ev p) \<longleftrightarrow>
        clock_ok ev p \<and> cell_ok (name_of p) \<and> cell_ok (inicio_of ev p)" for p
    using excel_problem_row_eq [of ev p] excel_problem_row_raises [of ev p]
    by (cases "clock_ok ev p \<and> cell_ok (name_of p) \<and> cell_ok (inicio_of ev p)")
       (simp_all add: is_ok_def)
  then show "problems \<noteq> [] \<Longrightarrow> ?thesis"
    by (simp add: excel_alertas_def map_err_is_ok)
qed

text \<open>
  C7, as amended: with no active problem the alerts table of the document and of the
  spreadsheet is exactly the one placeholder row. With problems, the document's table is
  exactly one row per problem, in the order received, each row showing that problem's
  severity colour and label, name, start date, duration and acknowledgement, provided
  every clock field is absent or an integer literal that is 0 or that \<open>datetime\<close>
  converts; the spreadsheet's table is one such row per problem (each text cut to the 32767
  characters of a cell) provided also every name and start date is a text a cell accepts.
  These conditions are exact: for any other non-empty list the renderer raises.
\<close>

theorem active_alerts_rows:
  "(html_alertas ev [] = Inr [NenhumAlerta] \<and> excel_alertas ev [] = Inr [ExcelNenhumAlerta])
   \<and> (problems \<noteq> [] \<longrightarrow>
        (list_all (clock_ok ev) problems \<longrightarrow>
           html_alertas ev problems =
             Inr (map (\<lambda>p. AlertRow (snd (severity_of (p_severity p)))
                              (fst (severity_of (p_severity p))) (name_of p) (inicio_of ev p)
                              (html_duracao (now ev) (clock_of p)) (ack_of p))
                      problems))
        \<and> (list_all (\<lambda>p. clock_ok ev p \<and> cell_ok (name_of p) \<and> cell_ok (inicio_of ev p)) problems \<longrightarrow>
           excel_alertas ev problems =
             Inr (map (\<lambda>p. ExcelAlert [fst (severity_of (p_severity p)), take 32767 (name_of p),
                                        take 32767 (inicio_of ev p),
                                        take 32767 (excel_duracao (now ev) (clock_of p)), ack_of p])
                      problems))
        \<and> (is_ok (html_alertas ev problems) \<longleftrightarrow> list_all (clock_ok ev) problems)
        \<and> (is_ok (excel_alertas ev problems) \<longleftrightarrow>
             list_all (\<lambda>p. clock_ok ev p \<and> cell_ok (name_of p) \<and> cell_ok (inicio_of ev p)) problems))"
proof -
  have empty: "html_alertas ev [] = Inr [NenhumAlerta] \<and> excel_alertas ev [] = Inr [ExcelNenhumAlerta]"
    by (simp add: html_alertas_def excel_alertas_def)
  show ?thesis
    using empty html_alertas_rows [of problems ev] excel_alertas_rows [of problems ev]
      html_alertas_is_ok [of problems ev] excel_alertas_is_ok [of problems ev]
    by blast
qed

theorem active_alerts_rows_witness:
  "html_alertas ex_env ex_problems =
     Inr [AlertRow ''#E97659'' ''Alta'' ''Disk full'' ''1700000000'' ''2d 3h 5m'' (''N'' @ [CHR 0xE3] @ ''o''),
          AlertRow ''#E97659'' ''Alta'' ''High load'' ''-'' ''-'' (''N'' @ [CHR 0xE3] @ ''o'')]
   \<and> excel_alertas ex_env ex_problems =
     Inr [ExcelAlert [''Alta'', ''Disk full'', ''1700000000'', ''2d 3h 5m'', ''N'' @ [CHR 0xE3] @ ''o''],
          ExcelAlert [''Alta'', ''High load'', ''-'', ''-'', ''N'' @ [CHR 0xE3] @ ''o'']]
   \<and> html_alertas ex_env [] = Inr [NenhumAlerta]
   \<and> excel_alertas ex_env [] = Inr [ExcelNenhumAlerta]"
proof -
  have c: "cell_ok ''Disk full''" "cell_ok ''High load''" "cell_ok ''1700000000''" "cell_ok ''-''"
    by (simp_all add: cell_ok_def)
  have p: "clock_ok ex_env (mk_problem (Some ''Disk full'') (Some ''1700000000''))"
    "clock_ok ex_env (mk_problem (Some ''High load'') None)"
    "clock_of (mk_problem (Some ''Disk full'') (Some ''1700000000'')) = 1700000000"
    "clock_of (mk_problem (Some ''High load'') None) = 0"
    by (simp_all add: clock_ok_def clock_of_def mk_problem_def py_int_example ex_env_def is_ok_def)
  have d: "html_duracao 1700183900 1700000000 = ''2d 3h 5m''"
    "excel_duracao 1700183900 1700000000 = ''2d 3h 5m''"
    "html_duracao 1700183900 0 = ''-''" "excel_duracao 1700183900 0 = ''-''"
    by (simp_all add: html_duracao_def excel_duracao_def str_int_examples)
  have s: "severity_of (Some ''4'') = (''Alta'', ''#E97659'')"
    by (simp add: severity_of_def TRIGGER_PRIORITIES_def)
  have e: "now ex_env = 1700183900" "fromtimestamp ex_env 1700000000 = Inr ''1700000000''"
    by (simp_all add: ex_env_def str_int_examples)
  have f: "p_name (mk_problem n k) = n" "p_severity (mk_problem n k) = Some ''4''"
    "p_acknowledged (mk_problem n k) = Some ''0''" for n k
    by (simp_all add: mk_problem_def)
  show ?thesis
    using active_alerts_rows [of ex_env ex_problems]
    by (simp add: ex_problems_def p c d s e f inicio_of_def name_of_def ack_of_def)
qed

text \<open>
  The claim as stated fails: a problem whose clock is not an integer literal makes the
  alerts loop of both renderers raise, and so does, in the spreadsheet, a problem name
  with a control character; no table is produced.
\<close>

theorem alerts_raise_on_malformed:
  "html_alertas ex_env [mk_problem (Some ''Disk full'') (Some ''yesterday'')] = Inl ValueError
   \<and> excel_alertas ex_env [mk_problem (Some ''Disk full'') (Some ''yesterday'')] = Inl ValueError
   \<and> excel_alertas ex_env [mk_problem (Some (''Disk'' @ [CHR 0x0B] @ ''full'')) (Some ''1700000000'')]
       = Inl IllegalCharacterError"
proof -
  have y: "py_int ''yesterday'' = Inl ValueError" by code_simp
  have d: "fromisoformat ex_env ''2023-11-15T10:00:00'' = Inr ''15/11/2023 10:00:00''"
    "fromtimestamp ex_env 1700000000 = Inr ''1700000000''"
    by (simp_all add: ex_env_def str_int_examples)
  have a: "html_alertas ex_env [mk_problem (Some ''Disk full'') (Some ''yesterday'')] = Inl ValueError"
    by (simp add: html_alertas_def html_problem_row_def problem_clock_def mk_problem_def y)
  have b: "excel_alertas ex_env [mk_problem (Some ''Disk full'') (Some ''yesterday'')] = Inl ValueError"
    by (simp add: excel_alertas_def excel_problem_row_def problem_clock_def mk_problem_def y)
  have c: "excel_alertas ex_env [mk_problem (Some (''Disk'' @ [CHR 0x0B] @ ''full'')) (Some ''1700000000'')]
       = Inl IllegalCharacterError"
    by (simp add: excel_alertas_def excel_problem_row_def problem_clock_def mk_problem_def
        py_int_example d excel_priority_name_def TRIGGER_PRIORITIES_def get_or_def
        cell_write_def illegal_char_def)
  show ?thesis using a b c by simp
qed

subsection \<open>Document and spreadsheet side by side\<close>

text \<open>
  C9: the spreadsheet does not show the status label of the document for a status outside
  the table: for status \<open>"2"\<close> the document says \<open>Desconhecido\<close> and the spreadsheet
  \<open>Desabilitado\<close>; for an absent status the document says \<open>Ativo\<close> and the spreadsheet
  \<open>Desabilitado\<close>.
\<close>

theorem status_label_divergence:
  "fst (html_item_status (mk_item ''cpu'' (Some ''2''))) = ''Desconhecido''
   \<and> excel_status (i_status (mk_item ''cpu'' (Some ''2''))) = ''Desabilitado''
   \<and> fst (html_item_status (mk_item ''cpu'' None)) = ''Ativo''
   \<and> excel_status (i_status (mk_item ''cpu'' None)) = ''Desabilitado''
   \<and> map ir_status (projr (map_err html_item_row [mk_item ''cpu'' (Some ''2'')])) = [''Desconhecido'']
   \<and> map hd (projr (map_err excel_item_row [mk_item ''cpu'' (Some ''2'')])) = [''Desabilitado'']"
  by (simp add: html_item_status_def excel_status_def mk_item_def STATUS_MAP_def get_or_def
      Desconhecido_def html_item_row_def excel_item_row_def html_tags_def excel_tags_def
      ITEM_TYPES_def VALUE_TYPES_def or_dash_def cell_write_def illegal_char_def)

lemma renderers_agree_elsewhere:
  "excel_priority_name code = fst (html_priority_info code)"
  "excel_duracao nw clock = html_duracao nw clock"
  "st = Some ''0'' \<or> st = Some ''1'' \<Longrightarrow>
     excel_status st = fst (get_or (map_of STATUS_MAP (get_or st ''0'')) Desconhecido)"
  by (auto simp: excel_priority_name_def html_priority_info_def excel_duracao_def html_duracao_def
      excel_status_def STATUS_MAP_def get_or_def)

subsection \<open>Sorting\<close>

lemma trigger_key_order:
  assumes "trigger_sort_key a = Inr ka" "trigger_sort_key b = Inr kb"
  shows "ka \<le> kb \<longleftrightarrow> trigger_before a b"
proof -
  obtain pa where pa: "py_int (get_or (t_priority a) ''0'') = Inr pa"
      "ka = (- pa, lower (get_or (t_description a) []))"
    using assms(1) by (auto simp: trigger_sort_key_def split: sum.splits)
  obtain pb where pb: "py_int (get_or (t_priority b) ''0'') = Inr pb"
      "kb = (- pb, lower (get_or (t_description b) []))"
    using assms(2) by (auto simp: trigger_sort_key_def split: sum.splits)
  show ?thesis
    using pa pb by (auto simp: trigger_before_def priority_code_def less_eq_prod_def)
qed

lemma triggers_sorted_total:
  assumes "\<forall>t \<in> set triggers. priority_ok t"
  shows "\<exists>trs. triggers_sorted triggers = Inr trs \<and> mset trs = mset triggers
           \<and> sorted_wrt trigger_before trs"
proof -
  have "\<forall>t \<in> set triggers. \<exists>k. trigger_sort_key t = Inr k"
    using assms by (auto simp: priority_ok_def is_ok_def trigger_sort_key_def split: sum.splits)
  then obtain ks where ks: "map_err trigger_sort_key triggers = Inr ks"
    using map_err_total by blast
  then have km: "map trigger_sort_key triggers = map Inr ks" by (simp add: map_err_Inr_iff)
  then have len: "length ks = length triggers" by (metis length_map)
  define S where "S = sort_key fst (zip ks triggers)"
  have res: "triggers_sorted triggers = Inr (map snd S)"
    using ks by (simp add: triggers_sorted_def S_def)
  have "mset S = mset (zip ks triggers)" by (simp add: S_def)
  then have "mset (map snd S) = mset (map snd (zip ks triggers))"
    by (metis mset_map)
  then have perm: "mset (map snd S) = mset triggers" using len by simp
  have key: "trigger_sort_key (snd z) = Inr (fst z)" if "z \<in> set S" for z
  proof -
    have "z \<in> set (zip ks triggers)" using that by (simp add: S_def)
    then obtain i where i: "i < length triggers" "z = (ks ! i, triggers ! i)"
      using len by (auto simp: in_set_zip)
    have "trigger_sort_key (triggers ! i) = Inr (ks ! i)"
      using km i(1) len by (metis nth_map)
    then show ?thesis using i by simp
  qed
  have "sorted (map fst S)" by (simp add: S_def)
  then have "sorted_wrt (\<lambda>a b. fst a \<le> fst b) S" by (simp add: sorted_map)
  then have "sorted_wrt (\<lambda>a b. trigger_before (snd a) (snd b)) S"
  proof (rule sorted_wrt_mono_rel [rotated])
    fix a b assume "a \<in> set S" "b \<in> set S" "fst a \<le> fst b"
    then show "trigger_before (snd a) (snd b)"
      using trigger_key_order [OF key key] by blast
  qed
  then have "sorted_wrt trigger_before (map snd S)" by (simp add: sorted_wrt_map)
  then show ?thesis using res perm by blast
qed

lemma itens_sorted_props:
  "sorted (map (\<lambda>i. lower (get_or (i_name i) [])) (itens_sorted itens))"
  "mset (itens_sorted itens) = mset itens"
  using sorted_sort_key [of item_sort_key itens]
  by (simp_all add: itens_sorted_def item_sort_key_def [abs_def])

subsection \<open>The example record set\<close>

lemma ex_itens_sorted:
  "itens_sorted ex_itens =
     [mk_item ''CPU load'' (Some ''1''), mk_item ''disk'' (Some ''0''), mk_item ''memory'' (Some ''0'')]"
  by code_simp

lemma ex_triggers_sorted:
  "triggers_sorted ex_triggers =
     Inr [mk_trigger ''zeta'' (Some ''5''), mk_trigger ''Alpha'' (Some ''3''), mk_trigger ''beta'' (Some ''3'')]"
  by code_simp

lemma ex_triggers_ok: "list_all priority_ok ex_triggers"
  by code_simp

lemma ex_item_rows:
  "\<exists>r1 r2 r3. map_err html_item_row (itens_sorted ex_itens) = Inr [r1, r2, r3]
     \<and> map ir_name [r1, r2, r3] = [''CPU load'', ''disk'', ''memory'']
     \<and> map ir_status [r1, r2, r3] = [''Desabilitado'', ''Ativo'', ''Ativo'']"
  by (simp add: ex_itens_sorted html_item_row_def mk_item_def html_tags_def get_or_def
      html_item_status_def STATUS_MAP_def)

lemma ex_trigger_rows:
  "\<exists>r1 r2 r3. map_err html_trigger_row
       [mk_trigger ''zeta'' (Some ''5''), mk_trigger ''Alpha'' (Some ''3''), mk_trigger ''beta'' (Some ''3'')]
       = Inr [r1, r2, r3]
     \<and> map tr_description [r1, r2, r3] = [''zeta'', ''Alpha'', ''beta'']
     \<and> map tr_priority [r1, r2, r3] = [''Desastre'', ''M'' @ [CHR 0xE9] @ ''dia'', ''M'' @ [CHR 0xE9] @ ''dia'']"
  by (simp add: html_trigger_row_def mk_trigger_def html_tags_def get_or_def
      html_trigger_status_def html_priority_info_def TRIGGER_PRIORITIES_def STATUS_MAP_def)

lemma html_rows_example:
  "html_alertas ex_env ex_problems =
     Inr [AlertRow ''#E97659'' ''Alta'' ''Disk full'' ''1700000000'' ''2d 3h 5m'' (''N'' @ [CHR 0xE3] @ ''o''),
          AlertRow ''#E97659'' ''Alta'' ''High load'' ''-'' ''-'' (''N'' @ [CHR 0xE3] @ ''o'')]"
  by (simp add: html_alertas_def ex_problems_def mk_problem_def html_problem_row_def
      problem_clock_def py_int_example ex_env_def html_priority_info_def TRIGGER_PRIORITIES_def
      get_or_def Desconhecido_def html_duracao_def str_int_examples ack_label_def)

lemma ex_html_renders:
  "\<exists>doc. gerar_html ex_env ex_data st = Inr doc
     \<and> map ir_name (h_itens doc) = [''CPU load'', ''disk'', ''memory'']
     \<and> map tr_description (h_triggers doc) = [''zeta'', ''Alpha'', ''beta'']
     \<and> length (h_alertas doc) = 2"
proof -
  obtain i1 i2 i3 where i: "map_err html_item_row (itens_sorted ex_itens) = Inr [i1, i2, i3]"
    "map ir_name [i1, i2, i3] = [''CPU load'', ''disk'', ''memory'']"
    using ex_item_rows by (elim exE conjE) (rule that)
  obtain t1 t2 t3 where t: "map_err html_trigger_row
       [mk_trigger ''zeta'' (Some ''5''), mk_trigger ''Alpha'' (Some ''3''), mk_trigger ''beta'' (Some ''3'')]
       = Inr [t1, t2, t3]"
    "map tr_description [t1, t2, t3] = [''zeta'', ''Alpha'', ''beta'']"
    using ex_trigger_rows by (elim exE conjE) (rule that)
  have d: "fromisoformat ex_env ''2023-11-15T10:00:00'' = Inr ''15/11/2023 10:00:00''"
    by (simp add: ex_env_def)
  show ?thesis
    using i t by (simp add: gerar_html_def ex_data_def ex_triggers_sorted d html_rows_example)
qed

subsection \<open>When the document renders\<close>

lemma is_ok_Inr: "is_ok r \<longleftrightarrow> (\<exists>x. r = Inr x)"
  by (cases r) (simp_all add: is_ok_def)

lemma html_tags_is_ok: "is_ok (html_tags tags) \<longleftrightarrow> tags_ok tags"
proof -
  have t: "is_ok (html_tag tag) \<longleftrightarrow> map_of tag ''tag'' \<noteq> None" for tag
    by (simp add: html_tag_def Let_def is_ok_def split: option.splits)
  have "is_ok (html_tags tags) \<longleftrightarrow> is_ok (map_err html_tag (get_or tags []))"
    by (simp add: html_tags_def is_ok_def split: sum.splits)
  then show ?thesis by (simp add: map_err_is_ok t tags_ok_def)
qed

lemma html_item_row_is_ok: "is_ok (html_item_row i) \<longleftrightarrow> tags_ok (i_tags i)"
  using html_tags_is_ok [of "i_tags i"]
  by (simp add: html_item_row_def Let_def is_ok_def split: sum.splits)

lemma html_trigger_row_is_ok: "is_ok (html_trigger_row t) \<longleftrightarrow> tags_ok (t_tags t)"
  using html_tags_is_ok [of "t_tags t"]
  by (simp add: html_trigger_row_def Let_def is_ok_def split: sum.splits)

lemma trigger_sort_key_is_ok: "is_ok (trigger_sort_key t) \<longleftrightarrow> priority_ok t"
  by (simp add: trigger_sort_key_def priority_ok_def is_ok_def split: sum.splits)

lemma triggers_sorted_is_ok: "is_ok (triggers_sorted triggers) \<longleftrightarrow> list_all priority_ok triggers"
proof -
  have "is_ok (triggers_sorted triggers) \<longleftrightarrow> is_ok (map_err trigger_sort_key triggers)"
    by (simp add: triggers_sorted_def is_ok_def split: sum.splits)
  then show ?thesis by (simp add: map_err_is_ok trigger_sort_key_is_ok)
qed

lemma triggers_sorted_set:
  assumes "triggers_sorted triggers = Inr trs"
  shows "mset trs = mset triggers" "sorted_wrt trigger_before trs"
proof -
  have "is_ok (triggers_sorted triggers)" using assms by (simp add: is_ok_def)
  then have "\<forall>t \<in> set triggers. priority_ok t"
    by (simp add: triggers_sorted_is_ok list_all_iff)
  then obtain trs' where "triggers_sorted triggers = Inr trs'" "mset trs' = mset triggers"
    "sorted_wrt trigger_before trs'"
    using triggers_sorted_total by blast
  then show "mset trs = mset triggers" "sorted_wrt trigger_before trs" using assms by simp_all
qed

lemma html_alertas_ok_iff: "is_ok (html_alertas ev problems) \<longleftrightarrow> list_all (clock_ok ev) problems"
proof (cases "problems = []")
  case True
  then show ?thesis by (simp add: html_alertas_def is_ok_def)
next
  case False
  then show ?thesis by (rule html_alertas_is_ok)
qed

lemma gerar_html_is_ok: "is_ok (gerar_html ev ed st) \<longleftrightarrow> well_formed ev ed"
proof -
  have items: "is_ok (map_err html_item_row (itens_sorted (ed_itens ed)))
      \<longleftrightarrow> list_all (\<lambda>i. tags_ok (i_tags i)) (ed_itens ed)"
    by (simp add: map_err_is_ok html_item_row_is_ok list_all_iff itens_sorted_def)
  have trig: "is_ok (map_err html_trigger_row trs) \<longleftrightarrow> list_all (\<lambda>t. tags_ok (t_tags t)) (ed_triggers ed)"
    if "triggers_sorted (ed_triggers ed) = Inr trs" for trs
  proof -
    have "set trs = set (ed_triggers ed)" using triggers_sorted_set(1) [OF that] by (rule mset_eq_setD)
    then show ?thesis by (simp add: map_err_is_ok html_trigger_row_is_ok list_all_iff)
  qed
  have split: "is_ok (gerar_html ev ed st) \<longleftrightarrow>
      (\<exists>trs. triggers_sorted (ed_triggers ed) = Inr trs
         \<and> is_ok (fromisoformat ev (ed_data_exportacao ed))
         \<and> is_ok (map_err html_item_row (itens_sorted (ed_itens ed)))
         \<and> is_ok (map_err html_trigger_row trs)
         \<and> is_ok (html_alertas ev (ed_problems ed)))"
    by (auto simp: gerar_html_def Let_def is_ok_def split: sum.splits)
  have "is_ok (gerar_html ev ed st) \<longleftrightarrow>
      (\<exists>trs. triggers_sorted (ed_triggers ed) = Inr trs)
         \<and> is_ok (fromisoformat ev (ed_data_exportacao ed))
         \<and> list_all (\<lambda>i. tags_ok (i_tags i)) (ed_itens ed)
         \<and> list_all (\<lambda>t. tags_ok (t_tags t)) (ed_triggers ed)
         \<and> list_all (clock_ok ev) (ed_problems ed)"
    unfolding split items html_alertas_ok_iff using trig by blast
  then show ?thesis
    unfolding well_formed_def is_ok_Inr [symmetric] triggers_sorted_is_ok
    by (auto simp: list_all_iff)
qed

lemma py_int_malformed: "py_int ''high'' = Inl ValueError" "py_int ''yesterday'' = Inl ValueError"
  by code_simp+

lemma ex_data_well_formed: "well_formed ex_env ex_data"
  using ex_triggers_ok
  by (simp add: well_formed_def ex_data_def ex_itens_def mk_item_def tags_ok_def get_or_def
      ex_problems_def mk_problem_def clock_ok_def py_int_example ex_env_def is_ok_def
      ex_triggers_def mk_trigger_def list_all_iff)

text \<open>
  C1, as amended: \<open>gerar_html\<close> returns the document exactly for the record sets in which
  every trigger priority that is present is an integer literal, every tag entry has its
  \<open>"tag"\<close> key, every problem clock that is present is an integer literal that is 0 or
  that \<open>datetime\<close> converts, and the export date is in ISO format; for every other record
  set it raises. An absent field does degrade to a default: a record with no field at all
  renders as a row of placeholders.
\<close>

theorem renders_when_well_formed:
  "(is_ok (gerar_html ev ed st) \<longleftrightarrow> well_formed ev ed)
   \<and> html_item_row absent_item =
       Inr \<lparr>ir_class = ''status-disabled'', ir_status = ''Ativo'', ir_name = [], ir_key = [],
            ir_tipo = ''Desconhecido'', ir_valor_tipo = ''Desconhecido'', ir_delay = ''-'',
            ir_history = ''-'', ir_tags = ''-''\<rparr>
   \<and> html_trigger_row absent_trigger =
       Inr \<lparr>tr_class = ''status-disabled'', tr_status = ''Ativo'', tr_color = ''#97AAB3'',
            tr_priority = ''N'' @ [CHR 0xE3] @ ''o classificada'', tr_description = [],
            tr_expression = [], tr_comments = ''-'', tr_tags = ''-''\<rparr>
   \<and> html_problem_row ev absent_problem =
       Inr (AlertRow ''#97AAB3'' (''N'' @ [CHR 0xE3] @ ''o classificada'') [] ''-'' ''-''
              (''N'' @ [CHR 0xE3] @ ''o''))"
proof -
  have i: "html_item_row absent_item =
       Inr \<lparr>ir_class = ''status-disabled'', ir_status = ''Ativo'', ir_name = [], ir_key = [],
            ir_tipo = ''Desconhecido'', ir_valor_tipo = ''Desconhecido'', ir_delay = ''-'',
            ir_history = ''-'', ir_tags = ''-''\<rparr>"
    by (simp add: html_item_row_def absent_item_def html_item_status_def STATUS_MAP_def
        get_or_def ITEM_TYPES_def VALUE_TYPES_def html_tags_def or_dash_def status_class_def)
  have t: "html_trigger_row absent_trigger =
       Inr \<lparr>tr_class = ''status-disabled'', tr_status = ''Ativo'', tr_color = ''#97AAB3'',
            tr_priority = ''N'' @ [CHR 0xE3] @ ''o classificada'', tr_description = [],
            tr_expression = [], tr_comments = ''-'', tr_tags = ''-''\<rparr>"
    by (simp add: html_trigger_row_def absent_trigger_def html_trigger_status_def STATUS_MAP_def
        get_or_def html_priority_info_def TRIGGER_PRIORITIES_def html_tags_def or_dash_def
        status_class_def)
  have p: "html_problem_row ev absent_problem =
       Inr (AlertRow ''#97AAB3'' (''N'' @ [CHR 0xE3] @ ''o classificada'') [] ''-'' ''-''
              (''N'' @ [CHR 0xE3] @ ''o''))"
    by (simp add: html_problem_row_def absent_problem_def html_priority_info_def
        TRIGGER_PRIORITIES_def get_or_def problem_clock_def html_duracao_def ack_label_def)
  show ?thesis using gerar_html_is_ok i t p by simp
qed

theorem renders_when_well_formed_witness:
  "well_formed ex_env ex_data
   \<and> is_ok (gerar_html ex_env ex_data (gerar_estatisticas ex_itens ex_triggers))"
  using renders_when_well_formed [of ex_env ex_data "gerar_estatisticas ex_itens ex_triggers"]
    ex_data_well_formed
  by simp

text \<open>
  The claim as stated fails on each of the malformed fields it names: a trigger priority
  \<open>"high"\<close> raises \<open>ValueError\<close> in the sort key, a tag entry without its \<open>"tag"\<close> key
  raises \<open>KeyError\<close> in the item row, and a problem clock \<open>"yesterday"\<close> raises
  \<open>ValueError\<close> in the alerts loop; no document is produced.
\<close>

theorem renderer_raises_on_malformed:
  "gerar_html ex_env bad_priority
      (gerar_estatisticas (ed_itens bad_priority) (ed_triggers bad_priority)) = Inl ValueError
   \<and> gerar_html ex_env bad_tag
      (gerar_estatisticas (ed_itens bad_tag) (ed_triggers bad_tag)) = Inl KeyError
   \<and> gerar_html ex_env bad_clock
      (gerar_estatisticas (ed_itens bad_clock) (ed_triggers bad_clock)) = Inl ValueError"
proof -
  have d: "fromisoformat ex_env ''2023-11-15T10:00:00'' = Inr ''15/11/2023 10:00:00''"
    by (simp add: ex_env_def)
  have a: "gerar_html ex_env bad_priority st = Inl ValueError" for st
    by (simp add: gerar_html_def bad_priority_def ex_data_def triggers_sorted_def
        trigger_sort_key_def mk_trigger_def get_or_def py_int_malformed)
  have s: "itens_sorted [x] = [x]" for x by (simp add: itens_sorted_def)
  have b: "gerar_html ex_env bad_tag st = Inl KeyError" for st
    by (simp add: gerar_html_def bad_tag_def ex_data_def ex_triggers_sorted d s
        html_item_row_def mk_item_def html_tags_def html_tag_def get_or_def)
  obtain i1 i2 i3 where i: "map_err html_item_row (itens_sorted ex_itens) = Inr [i1, i2, i3]"
    using ex_item_rows by (elim exE conjE) (rule that)
  obtain t1 t2 t3 where t: "map_err html_trigger_row
       [mk_trigger ''zeta'' (Some ''5''), mk_trigger ''Alpha'' (Some ''3''), mk_trigger ''beta'' (Some ''3'')]
       = Inr [t1, t2, t3]"
    using ex_trigger_rows by (elim exE conjE) (rule that)
  have c: "gerar_html ex_env bad_clock st = Inl ValueError" for st
    using i t
    by (simp add: gerar_html_def bad_clock_def ex_data_def ex_triggers_sorted d
        html_alertas_def html_problem_row_def problem_clock_def mk_problem_def py_int_malformed)
  show ?thesis by (intro conjI) (rule a b c)+
qed

subsection \<open>Listing order\<close>

lemma map_err_project:
  assumes "map_err f xs = Inr ys" and "\<And>x y. f x = Inr y \<Longrightarrow> g y = h x"
  shows "map g ys = map h xs"
  using assms(1)
proof (induction xs arbitrary: ys)
  case Nil
  then show ?case by simp
next
  case (Cons x xs)
  then obtain y zs where "f x = Inr y" "map_err f xs = Inr zs" "ys = y # zs"
    by (auto split: sum.splits)
  then show ?case using Cons.IH [of zs] assms(2) [of x y] by simp
qed

lemma html_item_row_name: "html_item_row i = Inr r \<Longrightarrow> ir_name r = get_or (i_name i) []"
  by (auto simp: html_item_row_def Let_def split: sum.splits)

lemma html_trigger_row_description:
  "html_trigger_row t = Inr r \<Longrightarrow> tr_description r = get_or (t_description t) []"
  by (auto simp: html_trigger_row_def Let_def split: sum.splits)

lemma gerar_html_Inr:
  assumes "gerar_html ev ed st = Inr doc"
  obtains trs where "triggers_sorted (ed_triggers ed) = Inr trs"
    "map_err html_item_row (itens_sorted (ed_itens ed)) = Inr (h_itens doc)"
    "map_err html_trigger_row trs = Inr (h_triggers doc)"
    "html_alertas ev (ed_problems ed) = Inr (h_alertas doc)"
    "h_frequentes doc = html_frequentes (ed_events ed)"
    "h_por_tipo doc = html_por_tipo st" "h_por_valor doc = html_por_valor st"
  using assms by (auto simp: gerar_html_def Let_def split: sum.splits)

lemma triggers_sorted_raises:
  assumes "\<not> list_all priority_ok triggers"
  shows "triggers_sorted triggers = Inl ValueError"
proof -
  have "\<not> is_ok (triggers_sorted triggers)" using assms by (simp add: triggers_sorted_is_ok)
  then obtain e where e: "map_err trigger_sort_key triggers = Inl e"
    by (auto simp: triggers_sorted_def is_ok_def split: sum.splits)
  then obtain t where "trigger_sort_key t = Inl e" using map_err_Inl by blast
  then have "e = ValueError"
    by (auto simp: trigger_sort_key_def py_int_def Let_def split: sum.splits if_splits)
  then show ?thesis using e by (simp add: triggers_sorted_def)
qed

text \<open>
  C2, as amended: the items are listed in ascending order of their lower-cased names, for
  every item list; the triggers are listed by numeric priority code descending, ties by
  lower-cased description ascending, for every trigger list whose priorities, where present,
  are integer literals, and for any other trigger list the sort raises \<open>ValueError\<close>. Both
  listings are rearrangements of the input, and the rows of the rendered document are the
  rows of the sorted records, in that order.
\<close>

theorem listing_order:
  "sorted (map (\<lambda>i. lower (get_or (i_name i) [])) (itens_sorted itens))
   \<and> mset (itens_sorted itens) = mset itens
   \<and> (list_all priority_ok triggers \<longrightarrow>
        (\<exists>trs. triggers_sorted triggers = Inr trs \<and> mset trs = mset triggers
           \<and> sorted_wrt trigger_before trs))
   \<and> (\<not> list_all priority_ok triggers \<longrightarrow> triggers_sorted triggers = Inl ValueError)
   \<and> (well_formed ev ed \<longrightarrow>
        (\<exists>doc trs. gerar_html ev ed st = Inr doc \<and> triggers_sorted (ed_triggers ed) = Inr trs
           \<and> map Inr (h_itens doc) = map html_item_row (itens_sorted (ed_itens ed))
           \<and> map ir_name (h_itens doc) = map (\<lambda>i. get_or (i_name i) []) (itens_sorted (ed_itens ed))
           \<and> map Inr (h_triggers doc) = map html_trigger_row trs
           \<and> map tr_description (h_triggers doc) = map (\<lambda>t. get_or (t_description t) []) trs))"
proof -
  have trig: "\<exists>trs. triggers_sorted triggers = Inr trs \<and> mset trs = mset triggers
           \<and> sorted_wrt trigger_before trs" if "list_all priority_ok triggers"
    using that triggers_sorted_total [of triggers] by (simp add: list_all_iff)
  have doc: "\<exists>doc trs. gerar_html ev ed st = Inr doc \<and> triggers_sorted (ed_triggers ed) = Inr trs
           \<and> map Inr (h_itens doc) = map html_item_row (itens_sorted (ed_itens ed))
           \<and> map ir_name (h_itens doc) = map (\<lambda>i. get_or (i_name i) []) (itens_sorted (ed_itens ed))
           \<and> map Inr (h_triggers doc) = map html_trigger_row trs
           \<and> map tr_description (h_triggers doc) = map (\<lambda>t. get_or (t_description t) []) trs"
    if "well_formed ev ed"
  proof -
    have "is_ok (gerar_html ev ed st)" using that by (simp add: gerar_html_is_ok)
    then obtain doc where d: "gerar_html ev ed st = Inr doc" by (auto simp: is_ok_Inr)
    then obtain trs where s: "triggers_sorted (ed_triggers ed) = Inr trs"
      and i: "map_err html_item_row (itens_sorted (ed_itens ed)) = Inr (h_itens doc)"
      and t: "map_err html_trigger_row trs = Inr (h_triggers doc)"
      by (rule gerar_html_Inr)
    have "map Inr (h_itens doc) = map html_item_row (itens_sorted (ed_itens ed))"
      using i by (simp add: map_err_Inr_iff)
    moreover have "map ir_name (h_itens doc) = map (\<lambda>i. get_or (i_name i) []) (itens_sorted (ed_itens ed))"
      using i html_item_row_name by (rule map_err_project)
    moreover have "map Inr (h_triggers doc) = map html_trigger_row trs"
      using t by (simp add: map_err_Inr_iff)
    moreover have "map tr_description (h_triggers doc) = map (\<lambda>t. get_or (t_description t) []) trs"
      using t html_trigger_row_description by (rule map_err_project)
    ultimately show ?thesis using d s by blast
  qed
  show ?thesis
    using itens_sorted_props [of itens] trig triggers_sorted_raises [of triggers] doc by blast
qed

theorem listing_order_witness:
  "itens_sorted ex_itens =
     [mk_item ''CPU load'' (Some ''1''), mk_item ''disk'' (Some ''0''), mk_item ''memory'' (Some ''0'')]
   \<and> list_all priority_ok ex_triggers
   \<and> triggers_sorted ex_triggers =
       Inr [mk_trigger ''zeta'' (Some ''5''), mk_trigger ''Alpha'' (Some ''3''), mk_trigger ''beta'' (Some ''3'')]
   \<and> well_formed ex_env ex_data
   \<and> (\<exists>doc. gerar_html ex_env ex_data (gerar_estatisticas ex_itens ex_triggers) = Inr doc
         \<and> map ir_name (h_itens doc) = [''CPU load'', ''disk'', ''memory'']
         \<and> map tr_description (h_triggers doc) = [''zeta'', ''Alpha'', ''beta''])"
proof -
  note t = listing_order [of ex_itens ex_triggers ex_env ex_data "gerar_estatisticas ex_itens ex_triggers"]
  from t ex_data_well_formed obtain doc trs where
    d: "gerar_html ex_env ex_data (gerar_estatisticas ex_itens ex_triggers) = Inr doc"
    and s: "triggers_sorted (ed_triggers ex_data) = Inr trs"
    and i: "map ir_name (h_itens doc) = map (\<lambda>i. get_or (i_name i) []) (itens_sorted (ed_itens ex_data))"
    and r: "map tr_description (h_triggers doc) = map (\<lambda>t. get_or (t_description t) []) trs"
    by blast
  have trs: "trs = [mk_trigger ''zeta'' (Some ''5''), mk_trigger ''Alpha'' (Some ''3''),
                    mk_trigger ''beta'' (Some ''3'')]"
    using s ex_triggers_sorted by (simp add: ex_data_def)
  have n: "map ir_name (h_itens doc) = [''CPU load'', ''disk'', ''memory'']"
    using i by (simp add: ex_data_def ex_itens_sorted mk_item_def get_or_def)
  have m: "map tr_description (h_triggers doc) = [''zeta'', ''Alpha'', ''beta'']"
    using r trs by (simp add: mk_trigger_def get_or_def)
  have e: "\<exists>doc. gerar_html ex_env ex_data (gerar_estatisticas ex_itens ex_triggers) = Inr doc
         \<and> map ir_name (h_itens doc) = [''CPU load'', ''disk'', ''memory'']
         \<and> map tr_description (h_triggers doc) = [''zeta'', ''Alpha'', ''beta'']"
    by (intro exI [of _ doc] conjI) (rule d n m)+
  show ?thesis
    by (intro conjI) (rule ex_itens_sorted ex_triggers_ok ex_triggers_sorted ex_data_well_formed e)+
qed

lemma py_int_three: "py_int ''3'' = Inr 3"
  by code_simp

text \<open>
  The claim as stated fails for a trigger list with a priority that is not a number: the
  sort key calls \<open>int()\<close> on it, \<open>sorted\<close> raises \<open>ValueError\<close>, and no trigger is listed.
\<close>

theorem trigger_sort_raises:
  "triggers_sorted [mk_trigger ''Link down'' (Some ''high'')] = Inl ValueError
   \<and> triggers_sorted [mk_trigger ''beta'' (Some ''3''), mk_trigger ''Link down'' (Some ''high'')]
       = Inl ValueError"
  by (simp add: triggers_sorted_def trigger_sort_key_def mk_trigger_def get_or_def
      py_int_malformed py_int_three)

subsection \<open>Counters and rankings\<close>

lemma Counter_snoc: "Counter (xs @ [x]) = counter_add x (Counter xs)"
  by (simp add: Counter_def)

lemma counter_add_keys:
  "map fst (counter_add k c) = (if k \<in> set (map fst c) then map fst c else map fst c @ [k])"
  by (induction c) (fastforce simp: image_iff)+

lemma counter_add_map_of:
  "map_of (counter_add x c) k =
     (if k = x then Some (case map_of c x of None \<Rightarrow> 1 | Some n \<Rightarrow> Suc n) else map_of c k)"
  by (induction c) auto

lemma Counter_keys: "map fst (Counter xs) = rev (remdups (rev xs))"
proof (induction xs rule: rev_induct)
  case Nil
  then show ?case by (simp add: Counter_def)
next
  case (snoc x xs)
  have "set (map fst (Counter xs)) = set xs" using snoc by simp
  then show ?case using snoc by (simp add: Counter_snoc counter_add_keys)
qed

lemma Counter_distinct: "distinct (map fst (Counter xs))"
  by (simp add: Counter_keys)

lemma Counter_map_of:
  "map_of (Counter xs) k = (if k \<in> set xs then Some (count_list xs k) else None)"
proof (induction xs arbitrary: k rule: rev_induct)
  case Nil
  then show ?case by (simp add: Counter_def)
next
  case (snoc x xs)
  show ?case using snoc [of k] snoc [of x] by (simp add: Counter_snoc counter_add_map_of)
qed

lemma distinct_keys_eq:
  "distinct (map fst c) \<Longrightarrow> c = map (\<lambda>k. (k, the (map_of c k))) (map fst c)"
proof (induction c)
  case Nil
  then show ?case by simp
next
  case (Cons a c)
  obtain k v where a: "a = (k, v)" by (cases a)
  have d: "distinct (map fst c)" "k \<notin> set (map fst c)" using Cons.prems a by auto
  note ih = Cons.IH [OF d(1)]
  have e: "map (\<lambda>k'. (k', the (map_of (a # c) k'))) (map fst c)
      = map (\<lambda>k'. (k', the (map_of c k'))) (map fst c)"
    using d(2) a by (intro map_cong) auto
  have "map (\<lambda>k'. (k', the (map_of (a # c) k'))) (map fst (a # c))
      = (k, v) # map (\<lambda>k'. (k', the (map_of (a # c) k'))) (map fst c)"
    using a by (simp del: map_map)
  also have "\<dots> = (k, v) # map (\<lambda>k'. (k', the (map_of c k'))) (map fst c)"
    by (simp only: e)
  also have "\<dots> = (k, v) # c" by (simp only: ih [symmetric])
  finally show ?case using a by simp
qed

lemma Counter_groups:
  "Counter xs = map (\<lambda>k. (k, count_list xs k)) (rev (remdups (rev xs)))"
proof -
  have "Counter xs = map (\<lambda>k. (k, the (map_of (Counter xs) k))) (map fst (Counter xs))"
    using Counter_distinct by (rule distinct_keys_eq)
  also have "\<dots> = map (\<lambda>k. (k, the (map_of (Counter xs) k))) (rev (remdups (rev xs)))"
    by (simp only: Counter_keys)
  also have "\<dots> = map (\<lambda>k. (k, count_list xs k)) (rev (remdups (rev xs)))"
    by (intro map_cong) (simp_all add: Counter_map_of)
  finally show ?thesis .
qed

lemma most_common_all_props:
  "mset (most_common_all c) = mset c"
  "sorted (map (\<lambda>kc. - int (snd kc)) (most_common_all c))"
  "filter (\<lambda>kc. snd kc = n) (most_common_all c) = filter (\<lambda>kc. snd kc = n) c"
proof -
  show "mset (most_common_all c) = mset c" by (simp add: most_common_all_def)
  show "sorted (map (\<lambda>kc. - int (snd kc)) (most_common_all c))" by (simp add: most_common_all_def)
  have "filter (\<lambda>kc. - int (snd kc) = - int n) (sort_key (\<lambda>kc. - int (snd kc)) c)
      = filter (\<lambda>kc. - int (snd kc) = - int n) c"
    by (rule sort_key_stable)
  then show "filter (\<lambda>kc. snd kc = n) (most_common_all c) = filter (\<lambda>kc. snd kc = n) c"
    by (simp add: most_common_all_def)
qed

lemma most_common_all_distinct:
  "distinct (map fst c) \<Longrightarrow> distinct (map fst (most_common_all c))"
proof -
  have "mset (map fst (most_common_all c)) = mset (map fst c)"
    using most_common_all_props(1) [of c] by (metis mset_map)
  then show "distinct (map fst c) \<Longrightarrow> ?thesis" by (metis mset_eq_imp_distinct_iff)
qed

lemma distinct_take_drop:
  assumes "distinct (map fst r)" "kc \<in> set (drop n r)"
  shows "fst kc \<notin> fst ` set (take n r)"
proof -
  have "distinct (map fst (take n r) @ map fst (drop n r))"
    using assms(1) by (metis append_take_drop_id map_append)
  then have "set (map fst (take n r)) \<inter> set (map fst (drop n r)) = {}" by simp
  then show ?thesis using assms(2) by auto
qed

lemma sorted_take_drop:
  assumes "sorted (map f r)" "a \<in> set (take n r)" "b \<in> set (drop n r)"
  shows "f a \<le> f b"
proof -
  have "sorted (map f (take n r) @ map f (drop n r))"
    using assms(1) by (metis append_take_drop_id map_append)
  then show ?thesis using assms(2,3) by (auto simp: sorted_append)
qed

end
